theory Spec2Isabelle
  imports Complex_Main
begin

section \<open>Ladder diagram display: the data model\<close>

text \<open>
  The repository renders ladder-logic rungs as HTML/SVG markup (the display library
  \<^verbatim>\<open>SubrDispControl\<close> of \<^verbatim>\<open>static/js/ladsubrdisplib.js\<close>) on top of a symbol library
  (\<^verbatim>\<open>LadSymbols\<close>, \<^verbatim>\<open>ladsymbols.js\<close>).  JavaScript strings are modelled as \<^typ>\<open>string\<close>,
  an optional or missing field as an \<^typ>\<open>'a option\<close>, the coordinates of a cell as
  integers (the caller supplies them; nothing keeps them from being negative), the
  declared bounds \<^verbatim>\<open>rows\<close> and \<^verbatim>\<open>cols\<close> of a rung as natural numbers, and a raised
  \<^verbatim>\<open>TypeError\<close> or \<^verbatim>\<open>RangeError\<close> as the left summand of a sum type.
\<close>

datatype js_error = TypeError | RangeError

record cell =
  row :: "int option"
  col :: "int option"
  symbol :: "string option"
  addr :: "string option"
  addrs :: "string list option"
  opcode :: "string option"
  params :: "string list option"
  cell_type :: "string option"

record rung =
  rungnum :: int
  cells :: "cell list"
  comment :: "string option"
  rows :: "nat option"
  cols :: "nat option"

record programData =
  addresses :: "string list option"
  subrdata :: "rung list option"
  error :: "string option"

section \<open>Text helpers\<close>

definition nl :: string where
  "nl = [CHR 0x0A]"

definition sp :: "nat \<Rightarrow> string" where
  "sp n = replicate n (CHR '' '')"

text \<open>
  Decimal numerals, as a template literal prints an integer that a JavaScript number holds
  exactly (below \<open>2\<^sup>5\<^sup>3\<close> in magnitude).  Larger numbers lose digits, and print in exponent
  notation from \<open>10\<^sup>2\<^sup>1\<close> on; they are outside the model.
\<close>

fun showNat :: "nat \<Rightarrow> string" where
  "showNat n =
     (if n < 10 then [''0123456789'' ! n]
      else showNat (n div 10) @ [''0123456789'' ! (n mod 10)])"

declare showNat.simps [simp del]

definition showInt :: "int \<Rightarrow> string" where
  "showInt i = (if i < 0 then ''-'' @ showNat (nat (- i)) else showNat (nat i))"

text \<open>\<^verbatim>\<open>Array.prototype.join\<close> on an array of strings.\<close>

fun join :: "string \<Rightarrow> string list \<Rightarrow> string" where
  "join s [] = []"
| "join s [x] = x"
| "join s (x # y # ys) = x @ s @ join s (y # ys)"

section \<open>The symbol library\<close>

text \<open>
  \<^verbatim>\<open>LadSymbols\<close> is an object built by an immediately invoked function; the display
  library reaches it through its properties.  The object is a record whose fields are
  the properties the display library reads: \<^verbatim>\<open>getSymbol\<close>, and \<^verbatim>\<open>isBlockSymbol\<close>,
  which is \<^term>\<open>None\<close> when the object has no such property.  The table
  \<^verbatim>\<open>symbols\<close> is modelled on its own keys: a name that a plain object inherits from
  \<^verbatim>\<open>Object.prototype\<close> (\<^verbatim>\<open>constructor\<close>, \<^verbatim>\<open>toString\<close>, \<^verbatim>\<open>__proto__\<close> and the like)
  finds the inherited property in the source and is outside the model.
\<close>

record ladSymbols =
  getSymbol :: "string \<Rightarrow> string \<Rightarrow> string"
  isBlockSymbol_prop :: "(string \<Rightarrow> bool) option"

definition WIDTH :: nat where
  "WIDTH = 60"

definition HEIGHT :: nat where
  "HEIGHT = 40"

definition CENTER_Y :: nat where
  "CENTER_Y = HEIGHT div 2"

definition wrapSvg :: "string \<Rightarrow> string \<Rightarrow> string" where
  \<open>wrapSvg content stateClass =
     ''<svg viewBox="0 0 '' @ showNat WIDTH @ '' '' @ showNat HEIGHT
       @ ''" class="ladder-symbol '' @ stateClass @ ''">'' @ nl
       @ sp 12 @ content @ nl
       @ sp 8 @ ''</svg>''\<close>

text \<open>The primitive strokes of the templates, each on a line of its own.\<close>

definition svgLine :: "string \<Rightarrow> string \<Rightarrow> string \<Rightarrow> string \<Rightarrow> string \<Rightarrow> string" where
  \<open>svgLine x1 y1 x2 y2 stateClass =
     nl @ sp 12 @ ''<line x1="'' @ x1 @ ''" y1="'' @ y1 @ ''" x2="'' @ x2 @ ''" y2="'' @ y2
       @ ''" class="'' @ stateClass @ ''"/>''\<close>

definition svgCircle :: "string \<Rightarrow> string" where
  \<open>svgCircle stateClass =
     nl @ sp 12 @ ''<circle cx="30" cy="'' @ showNat CENTER_Y @ ''" r="12" class="''
       @ stateClass @ ''"/>''\<close>

definition svgText :: "string \<Rightarrow> bool \<Rightarrow> string \<Rightarrow> string \<Rightarrow> string" where
  \<open>svgText fontSize bold stateClass label =
     nl @ sp 12 @ ''<text x="30" y="24" text-anchor="middle" font-size="'' @ fontSize @ ''"''
       @ (if bold then '' font-weight="bold"'' else '''')
       @ '' class="'' @ stateClass @ ''">'' @ label @ ''</text>''\<close>

definition svgRect :: "string \<Rightarrow> string \<Rightarrow> string \<Rightarrow> string \<Rightarrow> string" where
  \<open>svgRect x w stateClass extra =
     nl @ sp 12 @ ''<rect x="'' @ x @ ''" y="5" width="'' @ w @ ''" height="30" class="''
       @ stateClass @ ''" fill="none"'' @ extra @ ''/>''\<close>

definition leadIn :: "string \<Rightarrow> string \<Rightarrow> string" where
  "leadIn x2 stateClass = svgLine ''0'' (showNat CENTER_Y) x2 (showNat CENTER_Y) stateClass"

definition leadOut :: "string \<Rightarrow> string \<Rightarrow> string" where
  "leadOut x1 stateClass =
     svgLine x1 (showNat CENTER_Y) (showNat WIDTH) (showNat CENTER_Y) stateClass"

definition contactBars :: "string \<Rightarrow> string" where
  "contactBars stateClass =
     svgLine ''15'' ''8'' ''15'' ''32'' stateClass @ svgLine ''45'' ''8'' ''45'' ''32'' stateClass"

definition sym_noc :: "string \<Rightarrow> string" where
  "sym_noc stateClass =
     wrapSvg (leadIn ''15'' stateClass @ contactBars stateClass
              @ leadOut ''45'' stateClass @ nl @ sp 8) stateClass"

definition sym_ncc :: "string \<Rightarrow> string" where
  "sym_ncc stateClass =
     wrapSvg (leadIn ''15'' stateClass @ contactBars stateClass
              @ svgLine ''18'' ''30'' ''42'' ''10'' stateClass
              @ leadOut ''45'' stateClass @ nl @ sp 8) stateClass"

definition sym_nocpd :: "string \<Rightarrow> string" where
  "sym_nocpd stateClass =
     wrapSvg (leadIn ''15'' stateClass @ contactBars stateClass
              @ svgText ''12'' True stateClass ''P''
              @ leadOut ''45'' stateClass @ nl @ sp 8) stateClass"

definition sym_nocnd :: "string \<Rightarrow> string" where
  "sym_nocnd stateClass =
     wrapSvg (leadIn ''15'' stateClass @ contactBars stateClass
              @ svgText ''12'' True stateClass ''N''
              @ leadOut ''45'' stateClass @ nl @ sp 8) stateClass"

definition sym_out :: "string \<Rightarrow> string" where
  "sym_out stateClass =
     wrapSvg (leadIn ''15'' stateClass @ svgCircle stateClass
              @ leadOut ''45'' stateClass @ nl @ sp 8) stateClass"

definition sym_coil :: "string \<Rightarrow> string \<Rightarrow> string" where
  "sym_coil label stateClass =
     wrapSvg (leadIn ''15'' stateClass @ svgCircle stateClass
              @ svgText ''10'' True stateClass label
              @ leadOut ''45'' stateClass @ nl @ sp 8) stateClass"

definition sym_compare :: "string \<Rightarrow> string" where
  "sym_compare stateClass =
     wrapSvg (leadIn ''10'' stateClass @ svgRect ''10'' ''40'' stateClass ''''
              @ svgText ''8'' False stateClass ''CMP''
              @ leadOut ''50'' stateClass @ nl @ sp 8) stateClass"

definition sym_hline :: "string \<Rightarrow> string" where
  "sym_hline stateClass =
     wrapSvg (svgLine ''0'' (showNat CENTER_Y) (showNat WIDTH) (showNat CENTER_Y) stateClass
              @ nl @ sp 8) stateClass"

definition sym_il :: "string \<Rightarrow> string" where
  \<open>sym_il stateClass =
     wrapSvg (leadIn ''5'' stateClass
              @ svgRect ''5'' ''50'' stateClass '' stroke-dasharray="3,2"''
              @ svgText ''8'' False stateClass ''IL''
              @ leadOut ''55'' stateClass @ nl @ sp 8) stateClass\<close>

text \<open>
  The names the library aliases to the comparison block after building the table
  (timers, counters, the other block instructions).
\<close>

definition blockAliases :: "string list" where
  "blockAliases =
     [''tmr'', ''tmra'', ''tmroff'',
      ''cntu'', ''cntd'', ''udc'',
      ''copy'', ''cpyblk'', ''fill'', ''pack'', ''unpack'', ''shfrg'',
      ''findeq'', ''mathdec'', ''mathhex'', ''sum'',
      ''call'', ''rt'', ''end'', ''for'', ''next'']"

definition symbols :: "(string \<times> (string \<Rightarrow> string)) list" where
  "symbols =
     [(''noc'', sym_noc), (''ncc'', sym_ncc), (''nocpd'', sym_nocpd), (''nocnd'', sym_nocnd),
      (''out'', sym_out), (''set'', sym_coil ''S''), (''rst'', sym_coil ''R''),
      (''pd'', sym_coil ''P''), (''compare'', sym_compare), (''hline'', sym_hline),
      (''empty'', sym_hline), (''il'', sym_il)]
     @ map (\<lambda>n. (n, sym_compare)) blockAliases"

definition LadSymbols_getSymbol :: "string \<Rightarrow> string \<Rightarrow> string" where
  "LadSymbols_getSymbol symbolName stateClass =
     (case map_of symbols symbolName of
        Some symbolFn \<Rightarrow> symbolFn stateClass
      | None \<Rightarrow> sym_il stateClass)"

text \<open>
  The public API of the library: \<^verbatim>\<open>return { getSymbol, getSymbolNames, WIDTH, HEIGHT }\<close>.
  It has no property \<^verbatim>\<open>isBlockSymbol\<close>.
\<close>

definition LadSymbols :: ladSymbols where
  "LadSymbols = \<lparr> getSymbol = LadSymbols_getSymbol, isBlockSymbol_prop = None \<rparr>"

section \<open>The display library: block symbols\<close>

text \<open>
  \<^verbatim>\<open>isBlockSymbol\<close> of the display library delegates to the symbol library:
  \<^verbatim>\<open>return LadSymbols.isBlockSymbol(symbol)\<close>.  Calling a property that is undefined
  raises a \<^verbatim>\<open>TypeError\<close>.
\<close>

definition isBlockSymbol :: "ladSymbols \<Rightarrow> string \<Rightarrow> js_error + bool" where
  "isBlockSymbol L name =
     (case isBlockSymbol_prop L of
        None \<Rightarrow> Inl TypeError
      | Some f \<Rightarrow> Inr (f name))"

text \<open>
  The earlier variant of the display library carries the list itself:
  \<^verbatim>\<open>return blockSymbols.includes(symbol)\<close>.
\<close>

definition blockSymbols :: "string list" where
  "blockSymbols =
     [''compare'', ''tmr'', ''tmra'', ''tmroff'',
      ''cntu'', ''cntd'', ''udc'',
      ''copy'', ''cpyblk'', ''fill'',
      ''pack'', ''unpack'', ''shfrg'',
      ''findeq'', ''mathdec'', ''mathhex'', ''sum'',
      ''call'', ''rt'', ''end'', ''for'', ''next'']"

definition isBlockSymbol_local :: "string \<Rightarrow> bool" where
  "isBlockSymbol_local name \<longleftrightarrow> name \<in> set blockSymbols"

section \<open>The display library: markup\<close>

text \<open>
  The defaults of the source, \<^verbatim>\<open>x || d\<close>: a missing field, an empty string and the
  number zero are falsy; an array, also an empty one, is truthy.
\<close>

definition strOr :: "string option \<Rightarrow> string \<Rightarrow> string" where
  "strOr x d = (case x of None \<Rightarrow> d | Some s \<Rightarrow> if s = [] then d else s)"

definition natOr :: "nat option \<Rightarrow> nat \<Rightarrow> nat" where
  "natOr x d = (case x of None \<Rightarrow> d | Some n \<Rightarrow> if n = 0 then d else n)"

definition intOr :: "int option \<Rightarrow> int \<Rightarrow> int" where
  "intOr x d = (case x of None \<Rightarrow> d | Some n \<Rightarrow> if n = 0 then d else n)"

definition listOr :: "'a list option \<Rightarrow> 'a list" where
  "listOr x = (case x of None \<Rightarrow> [] | Some xs \<Rightarrow> xs)"

text \<open>
  \<^verbatim>\<open>escapeHtml\<close> assigns the string to the \<^verbatim>\<open>textContent\<close> of a fresh element and reads
  its \<^verbatim>\<open>innerHTML\<close> back: the serialisation of a text node replaces the ampersand, the
  two angle brackets and the no-break space (character 160) by their entities and leaves
  every other character, the double quote included, as it is.
\<close>

definition escapeChar :: "char \<Rightarrow> string" where
  "escapeChar c =
     (if c = CHR ''&'' then ''&amp;''
      else if c = CHR ''<'' then ''&lt;''
      else if c = CHR ''>'' then ''&gt;''
      else if c = CHR 0xA0 then ''&nbsp;''
      else [c])"

definition escapeHtml :: "string \<Rightarrow> string" where
  "escapeHtml str = (if str = [] then [] else concat (map escapeChar str))"

definition cellRow :: "cell \<Rightarrow> int" where
  "cellRow cell = intOr (row cell) 0"

definition cellCol :: "cell \<Rightarrow> int" where
  "cellCol cell = intOr (col cell) 0"

definition addressDisplay :: "string \<Rightarrow> string list \<Rightarrow> string" where
  \<open>addressDisplay address addrList =
     (if address \<noteq> [] then
        ''<span class="cell-address">'' @ escapeHtml address @ ''</span>''
      else if length addrList > 0 then
        ''<span class="cell-address">'' @ escapeHtml (addrList ! 0) @ ''</span>''
      else [])\<close>

definition paramsDisplay :: "bool \<Rightarrow> string list \<Rightarrow> string" where
  \<open>paramsDisplay isBlock ps =
     (if isBlock \<and> length ps > 0 then
        ''<span class="block-params">'' @ escapeHtml (join '' '' (take 4 ps)) @ ''</span>''
      else [])\<close>

definition dataAttrs :: "string list \<Rightarrow> string" where
  \<open>dataAttrs addrList =
     (if length addrList > 0 then
        ''data-addresses="'' @ escapeHtml (join '','' addrList) @ ''"''
      else [])\<close>

definition cellMarkup ::
  "string \<Rightarrow> string \<Rightarrow> string \<Rightarrow> string \<Rightarrow> string \<Rightarrow> int \<Rightarrow> int \<Rightarrow> string \<Rightarrow> string \<Rightarrow> string \<Rightarrow> string"
where
  \<open>cellMarkup cellId cellClass attrs opc symb r c svgHtml paramsHtml addressHtml =
     nl @ sp 12 @ ''<div id="'' @ cellId @ ''" class="'' @ cellClass @ '' MB_ladderoff"''
     @ nl @ sp 17 @ attrs
     @ nl @ sp 17 @ ''data-opcode="'' @ escapeHtml opc @ ''"''
     @ nl @ sp 17 @ ''data-symbol="'' @ escapeHtml symb @ ''"''
     @ nl @ sp 17 @ ''data-row="'' @ showInt r @ ''"''
     @ nl @ sp 17 @ ''data-col="'' @ showInt c @ ''">''
     @ nl @ sp 16 @ ''<div class="cell-symbol">''
     @ nl @ sp 20 @ svgHtml
     @ nl @ sp 16 @ ''</div>''
     @ nl @ sp 16 @ paramsHtml
     @ nl @ sp 16 @ addressHtml
     @ nl @ sp 16 @ ''<span class="cell-value"></span>''
     @ nl @ sp 12 @ ''</div>''
     @ nl @ sp 8\<close>

definition createCellHtml :: "ladSymbols \<Rightarrow> cell \<Rightarrow> js_error + string" where
  "createCellHtml L cell =
     (let symb = strOr (symbol cell) ''il'';
          address = strOr (addr cell) [];
          addrList = listOr (addrs cell);
          opc = strOr (opcode cell) [];
          ps = listOr (params cell);
          cellType = strOr (cell_type cell) ''unknown''
      in case isBlockSymbol L symb of
           Inl e \<Rightarrow> Inl e
         | Inr b \<Rightarrow>
             (let isBlock = (b \<or> cellType = ''block'');
                  r = cellRow cell;
                  c = cellCol cell;
                  cellId = ''cell-'' @ showInt r @ ''-'' @ showInt c;
                  cellClass = (if isBlock then ''ladder-cell ladder-block-cell''
                               else ''ladder-cell'');
                  svgHtml = getSymbol L symb ''MB_ladderoff''
              in Inr (cellMarkup cellId cellClass (dataAttrs addrList) opc symb r c svgHtml
                        (paramsDisplay isBlock ps) (addressDisplay address addrList))))"

definition createSpacerHtml :: "ladSymbols \<Rightarrow> nat \<Rightarrow> nat \<Rightarrow> string" where
  \<open>createSpacerHtml L r c =
     ''<div class="ladder-spacer" data-row="'' @ showNat r @ ''" data-col="'' @ showNat c
     @ ''">'' @ nl @ sp 12 @ getSymbol L ''hline'' ''MB_ladderoff'' @ nl @ sp 8 @ ''</div>''\<close>

definition emptyPlaceholderHtml :: "nat \<Rightarrow> nat \<Rightarrow> string" where
  \<open>emptyPlaceholderHtml r c =
     ''<div class="ladder-empty" data-row="'' @ showNat r @ ''" data-col="'' @ showNat c
     @ ''"></div>''\<close>

definition createBranchConnector :: "int \<Rightarrow> nat \<Rightarrow> nat \<Rightarrow> string" where
  \<open>createBranchConnector c startRow endRow =
     ''<div class="branch-connector"''
     @ nl @ sp 21 @ ''data-col="'' @ showInt c @ ''"''
     @ nl @ sp 21 @ ''data-start-row="'' @ showNat startRow @ ''"''
     @ nl @ sp 21 @ ''data-end-row="'' @ showNat endRow @ ''"''
     @ nl @ sp 21 @ ''style="--col: '' @ showInt c @ ''; --start-row: '' @ showNat startRow
     @ ''; --end-row: '' @ showNat endRow @ '';"></div>''\<close>

section \<open>The display library: the layout of a rung\<close>

text \<open>
  The grid is an array of \<^verbatim>\<open>rows\<close> arrays, each created with \<^verbatim>\<open>cols\<close> entries
  \<^verbatim>\<open>null\<close>.  A row array is read and written at whatever index the code uses, so it is a
  function from integers: \<^term>\<open>None\<close> where the entry is \<^verbatim>\<open>null\<close> or was never set
  (both are falsy), \<^term>\<open>Some cell\<close> where a cell was stored.  The grid itself is indexed
  by row: \<^verbatim>\<open>grid[row]\<close> is a row array for \<^verbatim>\<open>0 <= row < rows\<close> and \<^verbatim>\<open>undefined\<close>
  elsewhere.  \<^verbatim>\<open>new Array(cols)\<close> raises a \<^verbatim>\<open>RangeError\<close> when \<^verbatim>\<open>cols\<close> is not an array
  length, that is from \<open>2\<^sup>3\<^sup>2\<close> on; it is evaluated once for each row.  \<^verbatim>\<open>branchCols\<close> is
  a \<^verbatim>\<open>Set\<close>: it keeps each column once, in the order of first insertion.
\<close>

type_synonym gridRow = "int \<Rightarrow> cell option"

type_synonym grid = "gridRow list"

definition emptyGrid :: "nat \<Rightarrow> nat \<Rightarrow> js_error + grid" where
  "emptyGrid nrows ncols =
     (if 0 < nrows \<and> 2 ^ 32 \<le> int ncols then Inl RangeError
      else Inr (replicate nrows (\<lambda>i. None)))"

definition setAdd :: "int \<Rightarrow> int list \<Rightarrow> int list" where
  "setAdd c s = (if c \<in> set s then s else s @ [c])"

text \<open>
  One step of \<^verbatim>\<open>cells.forEach\<close>: under the guard \<^verbatim>\<open>row < rows && col < cols\<close> the cell
  is stored with \<^verbatim>\<open>grid[row][col] = cell\<close>.  For a negative \<^verbatim>\<open>row\<close> the guard holds and
  \<^verbatim>\<open>grid[row]\<close> is \<^verbatim>\<open>undefined\<close>: the assignment raises a \<^verbatim>\<open>TypeError\<close>.
\<close>

definition placeCell ::
  "nat \<Rightarrow> nat \<Rightarrow> grid \<times> int list \<Rightarrow> cell \<Rightarrow> js_error + grid \<times> int list"
where
  "placeCell nrows ncols st cell =
     (let r = cellRow cell; c = cellCol cell in
      if r < int nrows \<and> c < int ncols then
        (if r < 0 then Inl TypeError
         else Inr ((fst st)[nat r := (fst st ! nat r)(c := Some cell)],
                   if r > 0 then setAdd c (snd st) else snd st))
      else Inr st)"

fun placeAll ::
  "nat \<Rightarrow> nat \<Rightarrow> grid \<times> int list \<Rightarrow> cell list \<Rightarrow> js_error + grid \<times> int list"
where
  "placeAll nrows ncols st [] = Inr st"
| "placeAll nrows ncols st (x # xs) =
     (case placeCell nrows ncols st x of
        Inl e \<Rightarrow> Inl e
      | Inr st' \<Rightarrow> placeAll nrows ncols st' xs)"

definition placeCells :: "nat \<Rightarrow> nat \<Rightarrow> cell list \<Rightarrow> js_error + grid \<times> int list" where
  "placeCells nrows ncols cs =
     (case emptyGrid nrows ncols of
        Inl e \<Rightarrow> Inl e
      | Inr g \<Rightarrow> placeAll nrows ncols (g, []) cs)"

text \<open>
  What the renderer emits at one grid position: the placed cell's markup, a horizontal
  filler (\<^verbatim>\<open>createSpacerHtml\<close>) or the inert placeholder (\<^verbatim>\<open>ladder-empty\<close>).
\<close>

datatype entry = Placed cell | Spacer nat nat | Placeholder nat nat

definition hasLaterContent :: "grid \<Rightarrow> nat \<Rightarrow> nat \<Rightarrow> nat \<Rightarrow> bool" where
  "hasLaterContent g r c ncols = list_ex (\<lambda>cc. (g ! r) (int cc) \<noteq> None) [c + 1 ..< ncols]"

definition gridEntry :: "grid \<Rightarrow> int list \<Rightarrow> nat \<Rightarrow> nat \<Rightarrow> nat \<Rightarrow> entry" where
  "gridEntry g branchCols ncols r c =
     (case (g ! r) (int c) of
        Some cell \<Rightarrow> Placed cell
      | None \<Rightarrow>
          if r = 0 then Spacer r c
          else if hasLaterContent g r c ncols \<or> int c \<in> set branchCols then Spacer r c
          else Placeholder r c)"

definition rowEntries :: "grid \<Rightarrow> int list \<Rightarrow> nat \<Rightarrow> nat \<Rightarrow> entry list" where
  "rowEntries g branchCols ncols r = map (gridEntry g branchCols ncols r) [0 ..< ncols]"

definition renderEntry :: "ladSymbols \<Rightarrow> entry \<Rightarrow> js_error + string" where
  "renderEntry L e =
     (case e of
        Placed cell \<Rightarrow> createCellHtml L cell
      | Spacer r c \<Rightarrow> Inr (createSpacerHtml L r c)
      | Placeholder r c \<Rightarrow> Inr (emptyPlaceholderHtml r c))"

text \<open>Appending the pieces in order; the first exception ends the rendering.\<close>

fun appendAll :: "(js_error + string) list \<Rightarrow> js_error + string" where
  "appendAll [] = Inr []"
| "appendAll (x # xs) =
     (case x of
        Inl e \<Rightarrow> Inl e
      | Inr s \<Rightarrow> (case appendAll xs of Inl e \<Rightarrow> Inl e | Inr t \<Rightarrow> Inr (s @ t)))"

definition rowHtml :: "ladSymbols \<Rightarrow> grid \<Rightarrow> int list \<Rightarrow> nat \<Rightarrow> nat \<Rightarrow> js_error + string" where
  \<open>rowHtml L g branchCols ncols r =
     (let rowClass = (if r = 0 then ''ladder-row ladder-row-main''
                      else ''ladder-row ladder-row-branch'')
      in case appendAll (map (renderEntry L) (rowEntries g branchCols ncols r)) of
           Inl e \<Rightarrow> Inl e
         | Inr rowCellsHtml \<Rightarrow>
             Inr (''<div class="'' @ rowClass @ ''" data-row="'' @ showNat r @ ''">''
                  @ rowCellsHtml @ ''</div>''))\<close>

text \<open>The last row of the column that holds a cell, \<^verbatim>\<open>0\<close> when none does.\<close>

definition maxRowAt :: "grid \<Rightarrow> nat \<Rightarrow> int \<Rightarrow> nat" where
  "maxRowAt g nrows c = foldl (\<lambda>m r. if (g ! r) c \<noteq> None then r else m) 0 [0 ..< nrows]"

definition connectorFor :: "grid \<Rightarrow> nat \<Rightarrow> int \<Rightarrow> (int \<times> nat \<times> nat) list" where
  "connectorFor g nrows c =
     (let minRow = 0; maxRow = maxRowAt g nrows c in
      if maxRow > minRow then [(c, minRow, maxRow)] else [])"

definition branchConnectors :: "grid \<Rightarrow> nat \<Rightarrow> int list \<Rightarrow> (int \<times> nat \<times> nat) list" where
  "branchConnectors g nrows branchCols = concat (map (connectorFor g nrows) branchCols)"

definition rungRows :: "rung \<Rightarrow> nat" where
  "rungRows rg = natOr (rows rg) 1"

definition rungCols :: "rung \<Rightarrow> nat" where
  "rungCols rg = natOr (cols rg) 1"

text \<open>
  The first phase of \<^verbatim>\<open>createRungHtml\<close>, the grid and the branch columns of a rung, and
  what the later phases compute from them.  Where the first phase raises, the grid and
  the branch columns are taken empty (nothing is rendered then).
\<close>

definition rungPlacement :: "rung \<Rightarrow> js_error + grid \<times> int list" where
  "rungPlacement rg = placeCells (rungRows rg) (rungCols rg) (cells rg)"

definition layoutOk :: "rung \<Rightarrow> bool" where
  "layoutOk rg = (case rungPlacement rg of Inl e \<Rightarrow> False | Inr p \<Rightarrow> True)"

definition rungGrid :: "rung \<Rightarrow> grid" where
  "rungGrid rg =
     (case rungPlacement rg of
        Inl e \<Rightarrow> replicate (rungRows rg) (\<lambda>i. None)
      | Inr p \<Rightarrow> fst p)"

definition rungBranchCols :: "rung \<Rightarrow> int list" where
  "rungBranchCols rg = (case rungPlacement rg of Inl e \<Rightarrow> [] | Inr p \<Rightarrow> snd p)"

definition rungConnectors :: "rung \<Rightarrow> (int \<times> nat \<times> nat) list" where
  "rungConnectors rg = branchConnectors (rungGrid rg) (rungRows rg) (rungBranchCols rg)"

definition rungEntry :: "rung \<Rightarrow> nat \<Rightarrow> nat \<Rightarrow> entry" where
  "rungEntry rg r c = gridEntry (rungGrid rg) (rungBranchCols rg) (rungCols rg) r c"

definition rungMarkup :: "int \<Rightarrow> string \<Rightarrow> nat \<Rightarrow> nat \<Rightarrow> string \<Rightarrow> string \<Rightarrow> string" where
  \<open>rungMarkup rungNum cmt nrows ncols rowsHtml connectorsHtml =
     nl @ sp 12 @ ''<div class="ladder-rung" id="rung-'' @ showInt rungNum
       @ ''" data-rungnum="'' @ showInt rungNum @ ''" data-rows="'' @ showNat nrows
       @ ''" data-cols="'' @ showNat ncols @ ''">''
     @ nl @ sp 16 @ ''<div class="rung-header">''
     @ nl @ sp 20 @ ''<span class="rung-number">Network '' @ showInt rungNum @ ''</span>''
     @ nl @ sp 20 @ (if cmt \<noteq> [] then
                       ''<span class="rung-comment">'' @ escapeHtml cmt @ ''</span>''
                     else [])
     @ nl @ sp 16 @ ''</div>''
     @ nl @ sp 16 @ ''<div class="ladder-grid" style="--cols: '' @ showNat ncols
       @ ''; --rows: '' @ showNat nrows @ '';">''
     @ nl @ sp 20 @ ''<div class="power-rail left"></div>''
     @ nl @ sp 20 @ ''<div class="ladder-content">''
     @ nl @ sp 24 @ rowsHtml
     @ nl @ sp 24 @ connectorsHtml
     @ nl @ sp 20 @ ''</div>''
     @ nl @ sp 20 @ ''<div class="power-rail right"></div>''
     @ nl @ sp 16 @ ''</div>''
     @ nl @ sp 12 @ ''</div>''
     @ nl @ sp 8\<close>

definition createRungHtml :: "ladSymbols \<Rightarrow> rung \<Rightarrow> js_error + string" where
  "createRungHtml L rg =
     (let rungNum = rungnum rg;
          cmt = strOr (comment rg) [];
          nrows = rungRows rg;
          ncols = rungCols rg
      in case placeCells nrows ncols (cells rg) of
           Inl e \<Rightarrow> Inl e
         | Inr p \<Rightarrow>
             (let g = fst p; branchCols = snd p
              in case appendAll (map (rowHtml L g branchCols ncols) [0 ..< nrows]) of
                   Inl e \<Rightarrow> Inl e
                 | Inr rowsHtml \<Rightarrow>
                     (let connectorsHtml =
                            concat (map (\<lambda>(c, minRow, maxRow).
                                           createBranchConnector c minRow maxRow)
                                        (branchConnectors g nrows branchCols))
                      in Inr (rungMarkup rungNum cmt nrows ncols rowsHtml connectorsHtml))))"

section \<open>The display library: the current program and the rung list\<close>

text \<open>The two module variables \<^verbatim>\<open>currentProgram\<close> and \<^verbatim>\<open>currentAddresses\<close>.\<close>

record control =
  currentProgram :: "programData option"
  currentAddresses :: "string list"

definition initialControl :: control where
  "initialControl = \<lparr> currentProgram = None, currentAddresses = [] \<rparr>"

definition setProgram :: "control \<Rightarrow> programData option \<Rightarrow> control" where
  "setProgram st pd =
     (let st1 = st\<lparr> currentProgram := pd \<rparr> in
      case pd of
        None \<Rightarrow> st1
      | Some p \<Rightarrow>
          (case addresses p of
             None \<Rightarrow> st1
           | Some a \<Rightarrow> st1\<lparr> currentAddresses := a \<rparr>))"

definition getMonitorAddresses :: "control \<Rightarrow> string list" where
  "getMonitorAddresses st = currentAddresses st"

definition noProgramHtml :: string where
  \<open>noProgramHtml =
     nl @ sp 16 @ ''<div class="no-program">''
     @ nl @ sp 20 @ ''<h3>No Program Loaded</h3>''
     @ nl @ sp 20 @ ''<p>Start the web server with a program:</p>''
     @ nl @ sp 20 @ ''<code>(mblogic-cl-web:quick-start "test/plcprog.txt" :port 8080)</code>''
     @ nl @ sp 16 @ ''</div>''
     @ nl @ sp 12\<close>

definition errorHtml :: "string \<Rightarrow> string" where
  \<open>errorHtml msg = ''<div class="error-message">'' @ escapeHtml msg @ ''</div>''\<close>

definition noRungsHtml :: string where
  \<open>noRungsHtml = ''<div class="no-program"><p>No rungs in this subroutine</p></div>''\<close>

definition createRungList ::
  "ladSymbols \<Rightarrow> control \<Rightarrow> programData option \<Rightarrow> control \<times> (js_error + string)"
where
  "createRungList L st pd =
     (setProgram st pd,
      case pd of
        None \<Rightarrow> Inr noProgramHtml
      | Some p \<Rightarrow>
          (case subrdata p of
             None \<Rightarrow> Inr noProgramHtml
           | Some rungs \<Rightarrow>
               if strOr (error p) [] \<noteq> [] then Inr (errorHtml (strOr (error p) []))
               else if length rungs = 0 then Inr noRungsHtml
               else appendAll (map (createRungHtml L) rungs)))"

section \<open>The display library: live state\<close>

text \<open>
  A value of the address map: a boolean, a number, a string, \<^verbatim>\<open>null\<close>, \<^verbatim>\<open>undefined\<close>, or
  an object (carried with the string \<^verbatim>\<open>String(value)\<close> gives for it).  A number is a
  finite value, taken as a rational (negative zero is zero), or one of \<^verbatim>\<open>NaN\<close>,
  \<^verbatim>\<open>Infinity\<close>, \<^verbatim>\<open>-Infinity\<close>.  The map itself answers \<^verbatim>\<open>addr in dataValues\<close> and
  \<^verbatim>\<open>dataValues[addr]\<close> at once.
\<close>

datatype jsnum = Finite rat | NaN | PosInfinity | NegInfinity

datatype jsvalue = JBool bool | JNum jsnum | JStr string | JNull | JUndefined | JObject string

type_synonym dataValues = "string \<Rightarrow> jsvalue option"

text \<open>
  The two built-in conversions of numbers the library calls, \<^verbatim>\<open>Number.prototype.toString\<close>
  and \<^verbatim>\<open>Number.prototype.toFixed\<close>, are not computed: a text is either a string or the
  result of one of the two conversions, named by its arguments.
\<close>

datatype jstext = Text string | NumberToString jsnum | NumberToFixed jsnum nat

definition isInteger :: "jsnum \<Rightarrow> bool" where
  "isInteger n = (case n of Finite q \<Rightarrow> of_int \<lfloor>q\<rfloor> = q | _ \<Rightarrow> False)"

definition toStr :: "jsvalue \<Rightarrow> jstext" where
  "toStr v =
     (case v of
        JBool b \<Rightarrow> Text (if b then ''true'' else ''false'')
      | JNum n \<Rightarrow> NumberToString n
      | JStr s \<Rightarrow> Text s
      | JNull \<Rightarrow> Text ''null''
      | JUndefined \<Rightarrow> Text ''undefined''
      | JObject s \<Rightarrow> Text s)"

definition formatValue :: "jsvalue \<Rightarrow> jstext" where
  "formatValue v =
     (case v of
        JNum n \<Rightarrow> (if isInteger n then NumberToString n else NumberToFixed n 2)
      | _ \<Rightarrow> toStr v)"

text \<open>
  The rendered cell as the update pass sees it: the class list of the element selected
  by \<^verbatim>\<open>.ladder-cell\<close>, its \<^verbatim>\<open>data-addresses\<close> attribute, the first \<^verbatim>\<open>svg\<close> below
  it with the elements below that, and the first element of class \<^verbatim>\<open>cell-value\<close>.
\<close>

record element =
  tagName :: string
  classList :: "string list"

record svgElement =
  svgClassList :: "string list"
  descendants :: "element list"

record valueElement =
  textContent :: jstext
  display :: string

record domCell =
  cellClassList :: "string list"
  dataAddresses :: "string option"
  svg :: "svgElement option"
  cellValue :: "valueElement option"

definition MB_ladderoff :: string where
  "MB_ladderoff = ''MB_ladderoff''"

definition MB_ladderon :: string where
  "MB_ladderon = ''MB_ladderon''"

text \<open>\<^verbatim>\<open>classList.remove('MB_ladderoff', 'MB_ladderon')\<close> and \<^verbatim>\<open>classList.add\<close>.\<close>

definition classRemove :: "string list \<Rightarrow> string list" where
  "classRemove cl = filter (\<lambda>c. c \<noteq> MB_ladderoff \<and> c \<noteq> MB_ladderon) cl"

definition classAdd :: "string \<Rightarrow> string list \<Rightarrow> string list" where
  "classAdd t cl = (if t \<in> set cl then cl else cl @ [t])"

definition setState :: "bool \<Rightarrow> string list \<Rightarrow> string list" where
  "setState isOn cl = classAdd (if isOn then MB_ladderon else MB_ladderoff) (classRemove cl)"

text \<open>\<^verbatim>\<open>String.prototype.split\<close> at a one-character separator.\<close>

fun splitOn :: "char \<Rightarrow> string \<Rightarrow> string list" where
  "splitOn d [] = [[]]"
| "splitOn d (c # cs) =
     (if c = d then [] # splitOn d cs
      else (case splitOn d cs of
              [] \<Rightarrow> [[c]]
            | x # xs \<Rightarrow> (c # x) # xs))"

definition monitored :: "string \<Rightarrow> string list" where
  "monitored addressesStr = filter (\<lambda>a. a \<noteq> []) (splitOn (CHR '','') addressesStr)"

text \<open>One step of \<^verbatim>\<open>addresses.forEach\<close> on the pair \<^verbatim>\<open>(isOn, displayValue)\<close>.\<close>

definition scanStep :: "dataValues \<Rightarrow> bool \<times> jsvalue option \<Rightarrow> string \<Rightarrow> bool \<times> jsvalue option" where
  "scanStep dv st a =
     (case dv a of
        None \<Rightarrow> st
      | Some v \<Rightarrow>
          (case v of
             JBool b \<Rightarrow> (if b then (True, snd st) else st)
           | JNum n \<Rightarrow> (if n \<noteq> Finite 0 then (True, Some v) else (fst st, Some v))
           | JNull \<Rightarrow> st
           | JUndefined \<Rightarrow> st
           | _ \<Rightarrow> (fst st, Some v)))"

definition scan :: "dataValues \<Rightarrow> string list \<Rightarrow> bool \<times> jsvalue option" where
  "scan dv as = foldl (scanStep dv) (False, None) as"

definition isPrimitive :: "element \<Rightarrow> bool" where
  "isPrimitive e \<longleftrightarrow> tagName e \<in> set [''line'', ''circle'', ''rect'', ''text'']"

definition updateSvg :: "bool \<Rightarrow> svgElement \<Rightarrow> svgElement" where
  "updateSvg isOn s =
     s\<lparr> svgClassList := setState isOn (svgClassList s),
        descendants :=
          map (\<lambda>el. if isPrimitive el then el\<lparr> classList := setState isOn (classList el) \<rparr>
                     else el)
              (descendants s) \<rparr>"

definition updateValue :: "jsvalue option \<Rightarrow> valueElement \<Rightarrow> valueElement" where
  "updateValue displayValue valueEl =
     (case displayValue of
        Some v \<Rightarrow> valueEl\<lparr> textContent := formatValue v, display := ''block'' \<rparr>
      | None \<Rightarrow> valueEl\<lparr> display := ''none'' \<rparr>)"

text \<open>
  The addresses the pass reads for a cell; the empty list when the pass skips the cell
  (not selected, no attribute, an empty attribute, or no non-empty address in it).
\<close>

definition cellAddresses :: "domCell \<Rightarrow> string list" where
  "cellAddresses cell =
     (if ''ladder-cell'' \<notin> set (cellClassList cell) then []
      else case dataAddresses cell of
             None \<Rightarrow> []
           | Some addressesStr \<Rightarrow> if addressesStr = [] then [] else monitored addressesStr)"

definition updateCell :: "dataValues \<Rightarrow> domCell \<Rightarrow> domCell" where
  "updateCell dv cell =
     (let as = cellAddresses cell in
      if length as = 0 then cell
      else
        (let isOn = fst (scan dv as);
             displayValue = snd (scan dv as)
         in cell\<lparr> cellClassList := setState isOn (cellClassList cell),
                  svg := map_option (updateSvg isOn) (svg cell),
                  cellValue := map_option (updateValue displayValue) (cellValue cell) \<rparr>))"

definition updateCellStates :: "dataValues \<Rightarrow> domCell list \<Rightarrow> domCell list" where
  "updateCellStates dv doc = map (updateCell dv) doc"

text \<open>What a cell shows: its state tag and the text of its value element, if displayed.\<close>

definition hasTag :: "string \<Rightarrow> string list \<Rightarrow> bool" where
  "hasTag t cl \<longleftrightarrow> t \<in> set cl"

definition isOnCell :: "domCell \<Rightarrow> bool" where
  "isOnCell cell \<longleftrightarrow> hasTag MB_ladderon (cellClassList cell)"

definition isOffCell :: "domCell \<Rightarrow> bool" where
  "isOffCell cell \<longleftrightarrow> hasTag MB_ladderoff (cellClassList cell)"

definition displayedValue :: "domCell \<Rightarrow> jstext option" where
  "displayedValue cell =
     (case cellValue cell of
        None \<Rightarrow> None
      | Some v \<Rightarrow> if display v = ''none'' then None else Some (textContent v))"

section \<open>Notions the properties are stated with\<close>

text \<open>
  A value turns a cell on when it is the boolean \<^verbatim>\<open>true\<close> or a number other than zero; it
  is displayable when it is a number or another value that is neither a boolean nor
  \<^verbatim>\<open>null\<close> nor \<^verbatim>\<open>undefined\<close>.  \<^term>\<open>lastDisplayable\<close> is the displayable value of the last
  monitored address that has one.
\<close>

definition turnsOn :: "jsvalue \<Rightarrow> bool" where
  "turnsOn v = (case v of JBool b \<Rightarrow> b | JNum n \<Rightarrow> n \<noteq> Finite 0 | _ \<Rightarrow> False)"

definition displayable :: "jsvalue \<Rightarrow> bool" where
  "displayable v = (case v of JNum n \<Rightarrow> True | JStr s \<Rightarrow> True | JObject s \<Rightarrow> True | _ \<Rightarrow> False)"

definition lastDisplayable :: "dataValues \<Rightarrow> string list \<Rightarrow> jsvalue option" where
  "lastDisplayable dv as =
     (case rev (filter displayable (List.map_filter dv as)) of
        [] \<Rightarrow> None
      | v # vs \<Rightarrow> Some v)"



definition shown :: "domCell \<Rightarrow> string list \<times> svgElement option \<times> jstext option" where
  "shown cell = (cellClassList cell, svg cell, displayedValue cell)"


text \<open>
  A cell is placed when it passes the guard of the renderer,
  \<^verbatim>\<open>row < rows && col < cols\<close>; it is within the bounds of its rung when, besides,
  neither coordinate is negative.  The rows that hold a placed cell at a column, and the
  largest of them (\<^verbatim>\<open>0\<close> when there is none), are read off the cell list.
\<close>

definition placed :: "rung \<Rightarrow> cell \<Rightarrow> bool" where
  "placed rg x \<longleftrightarrow> cellRow x < int (rungRows rg) \<and> cellCol x < int (rungCols rg)"

definition inBounds :: "rung \<Rightarrow> cell \<Rightarrow> bool" where
  "inBounds rg x \<longleftrightarrow>
     0 \<le> cellRow x \<and> cellRow x < int (rungRows rg) \<and>
     0 \<le> cellCol x \<and> cellCol x < int (rungCols rg)"

definition placedRows :: "rung \<Rightarrow> int \<Rightarrow> int set" where
  "placedRows rg c = set (map cellRow (filter (\<lambda>x. placed rg x \<and> cellCol x = c) (cells rg)))"

definition maxPlacedRow :: "rung \<Rightarrow> int \<Rightarrow> int" where
  "maxPlacedRow rg c = Max (insert 0 (placedRows rg c))"

text \<open>
  A grid position is empty when no cell of the rung has its coordinates; it has later
  content when a cell of its row stands in a later column of the grid; a column of the
  grid is a branch column when a cell within the bounds stands in it on a row other than
  the first.
\<close>

definition emptyAt :: "rung \<Rightarrow> nat \<Rightarrow> nat \<Rightarrow> bool" where
  "emptyAt rg r c \<longleftrightarrow> \<not> list_ex (\<lambda>x. cellRow x = int r \<and> cellCol x = int c) (cells rg)"

definition laterContent :: "rung \<Rightarrow> nat \<Rightarrow> nat \<Rightarrow> bool" where
  "laterContent rg r c \<longleftrightarrow>
     list_ex (\<lambda>x. cellRow x = int r \<and> int c < cellCol x \<and> cellCol x < int (rungCols rg))
             (cells rg)"

definition branchColumn :: "rung \<Rightarrow> nat \<Rightarrow> bool" where
  "branchColumn rg c \<longleftrightarrow>
     list_ex (\<lambda>x. inBounds rg x \<and> cellCol x = int c \<and> 0 < cellRow x) (cells rg)"

text \<open>
  The rung without the cells that lie outside its bounds; a rung none of whose cells has
  a negative coordinate.
\<close>

definition dropOutOfRange :: "rung \<Rightarrow> rung" where
  "dropOutOfRange rg = rg\<lparr> cells := filter (inBounds rg) (cells rg) \<rparr>"

definition nonNegative :: "rung \<Rightarrow> bool" where
  "nonNegative rg \<longleftrightarrow> list_all (\<lambda>x. 0 \<le> cellRow x \<and> 0 \<le> cellCol x) (cells rg)"

text \<open>
  The angle brackets of a piece of markup, in order: the characters that open and close
  tags.  The skeleton of a cell, a grid entry, a row and a rung is the sequence of angle
  brackets of the fixed template text and of the library's graphics; it reads the text
  fields of a cell or rung only to see whether they are empty, and the symbol name only
  to select the graphic and to ask whether it is a block.
\<close>

definition angles :: "string \<Rightarrow> string" where
  "angles s = filter (\<lambda>c. c = CHR ''<'' \<or> c = CHR ''>'') s"

definition tagPairs :: "nat \<Rightarrow> string" where
  "tagPairs n = concat (replicate n ''<>'')"

definition libraryIsBlock :: "ladSymbols \<Rightarrow> string \<Rightarrow> bool" where
  "libraryIsBlock L name = (case isBlockSymbol_prop L of None \<Rightarrow> False | Some f \<Rightarrow> f name)"

definition cellSkeleton :: "ladSymbols \<Rightarrow> cell \<Rightarrow> string" where
  "cellSkeleton L cell =
     (let symb = strOr (symbol cell) ''il'';
          isBlock = (libraryIsBlock L symb \<or> strOr (cell_type cell) ''unknown'' = ''block'')
      in tagPairs 2 @ angles (getSymbol L symb ''MB_ladderoff'') @ tagPairs 1
         @ (if isBlock \<and> listOr (params cell) \<noteq> [] then tagPairs 2 else [])
         @ (if strOr (addr cell) [] \<noteq> [] \<or> listOr (addrs cell) \<noteq> [] then tagPairs 2 else [])
         @ tagPairs 3)"

definition entrySkeleton :: "ladSymbols \<Rightarrow> entry \<Rightarrow> string" where
  "entrySkeleton L e =
     (case e of
        Placed cell \<Rightarrow> cellSkeleton L cell
      | Spacer r c \<Rightarrow> tagPairs 1 @ angles (getSymbol L ''hline'' ''MB_ladderoff'') @ tagPairs 1
      | Placeholder r c \<Rightarrow> tagPairs 2)"

definition rowSkeleton :: "ladSymbols \<Rightarrow> rung \<Rightarrow> nat \<Rightarrow> string" where
  "rowSkeleton L rg r =
     tagPairs 1 @ concat (map (\<lambda>c. entrySkeleton L (rungEntry rg r c)) [0 ..< rungCols rg])
     @ tagPairs 1"

definition rungSkeleton :: "ladSymbols \<Rightarrow> rung \<Rightarrow> string" where
  "rungSkeleton L rg =
     tagPairs 4 @ (if strOr (comment rg) [] \<noteq> [] then tagPairs 2 else []) @ tagPairs 5
     @ concat (map (rowSkeleton L rg) [0 ..< rungRows rg])
     @ tagPairs (2 * length (rungConnectors rg))
     @ tagPairs 5"

subsection \<open>Example inputs\<close>

definition exampleValueEl :: valueElement where
  "exampleValueEl = \<lparr> textContent = Text [], display = [] \<rparr>"

definition exampleSvg :: svgElement where
  "exampleSvg =
     \<lparr> svgClassList = [''ladder-symbol'', ''MB_ladderoff''],
       descendants =
         [\<lparr> tagName = ''line'', classList = [''MB_ladderon''] \<rparr>,
          \<lparr> tagName = ''circle'', classList = [''MB_ladderoff''] \<rparr>,
          \<lparr> tagName = ''line'', classList = [''MB_ladderoff''] \<rparr>] \<rparr>"

definition exampleCell :: domCell where
  "exampleCell =
     \<lparr> cellClassList = [''ladder-cell'', ''MB_ladderoff''],
       dataAddresses = Some ''C1,C2'',
       svg = Some exampleSvg,
       cellValue = Some exampleValueEl \<rparr>"

definition exampleIdleCell :: domCell where
  "exampleIdleCell =
     \<lparr> cellClassList = [''ladder-cell'', ''MB_ladderoff''],
       dataAddresses = None,
       svg = None,
       cellValue = Some exampleValueEl \<rparr>"

definition exampleValues :: dataValues where
  "exampleValues = map_of [(''C1'', JNum (Finite 5)), (''C2'', JStr ''idle'')]"


text \<open>
  A rung with a branch on column 1 (rows 1 and 2) and two cells beyond its 3 by 4 grid;
  a rung all of whose cells lie beyond its grid; a rung with a cell on row -1, one
  with a cell on column -1 of a branch row, and one of two rows with a cell on row -1; a
  rung whose branch on column 1 skips row 1; the symbol library extended with the block
  list of the earlier variant as its \<^verbatim>\<open>isBlockSymbol\<close>; programs with and without
  addresses and the program that carries only an error; a cell and a rung whose text
  fields hold markup.
\<close>

definition exampleCellAt :: "int \<Rightarrow> int \<Rightarrow> string \<Rightarrow> string \<Rightarrow> cell" where
  "exampleCellAt r c s a =
     \<lparr> row = Some r, col = Some c, symbol = Some s, addr = Some a, addrs = Some [a],
       opcode = None, params = None, cell_type = None \<rparr>"

definition exampleRung :: rung where
  "exampleRung =
     \<lparr> rungnum = 1,
       cells = [exampleCellAt 0 0 ''noc'' ''X1'', exampleCellAt 0 3 ''out'' ''Y1'',
                exampleCellAt 1 1 ''noc'' ''X2'', exampleCellAt 2 1 ''ncc'' ''X3'',
                exampleCellAt 3 0 ''noc'' ''X4'', exampleCellAt 0 4 ''out'' ''Y2''],
       comment = None, rows = Some 3, cols = Some 4 \<rparr>"

definition exampleOutsideRung :: rung where
  "exampleOutsideRung =
     \<lparr> rungnum = 2,
       cells = [exampleCellAt 1 0 ''noc'' ''X1'', exampleCellAt 0 1 ''out'' ''Y1''],
       comment = None, rows = Some 1, cols = Some 1 \<rparr>"

definition negativeRowRung :: rung where
  "negativeRowRung =
     \<lparr> rungnum = 3, cells = [exampleCellAt (- 1) 0 ''noc'' ''X1''],
       comment = None, rows = Some 1, cols = Some 1 \<rparr>"

definition negativeColRung :: rung where
  "negativeColRung =
     \<lparr> rungnum = 4, cells = [exampleCellAt 1 (- 1) ''noc'' ''X1''],
       comment = None, rows = Some 2, cols = Some 1 \<rparr>"

definition negativeRowBranchRung :: rung where
  "negativeRowBranchRung =
     \<lparr> rungnum = 5, cells = [exampleCellAt (- 1) 0 ''noc'' ''X1''],
       comment = None, rows = Some 2, cols = Some 1 \<rparr>"

definition exampleGapRung :: rung where
  "exampleGapRung =
     \<lparr> rungnum = 6,
       cells = [exampleCellAt 0 0 ''noc'' ''X1'', exampleCellAt 2 1 ''noc'' ''X2''],
       comment = None, rows = Some 3, cols = Some 2 \<rparr>"

definition exampleLibrary :: ladSymbols where
  "exampleLibrary = LadSymbols\<lparr> isBlockSymbol_prop := Some isBlockSymbol_local \<rparr>"

definition exampleProgram :: programData where
  "exampleProgram =
     \<lparr> addresses = Some [''X1'', ''Y1''],
       subrdata = Some [\<lparr> rungnum = 1,
                          cells = [exampleCellAt 0 0 ''noc'' ''X1'', exampleCellAt 0 1 ''out'' ''Y1''],
                          comment = None, rows = Some 1, cols = Some 2 \<rparr>],
       error = None \<rparr>"

definition exampleBareProgram :: programData where
  "exampleBareProgram = \<lparr> addresses = None, subrdata = Some [], error = None \<rparr>"

definition exampleErrorProgram :: programData where
  "exampleErrorProgram = \<lparr> addresses = None, subrdata = None, error = Some ''compile failed'' \<rparr>"

definition hostileCell :: cell where
  \<open>hostileCell =
     \<lparr> row = Some 0, col = Some 0, symbol = Some ''tmr'',
       addr = Some ''<script>alert(1)</script>'',
       addrs = Some [''T1"><b>'', ''T2''],
       opcode = Some ''</div><img src=x>'',
       params = Some [''<i>'', ''&'', ''>'', ''<'', ''5''],
       cell_type = Some ''block'' \<rparr>\<close>

definition hostileRung :: rung where
  "hostileRung =
     \<lparr> rungnum = 7, cells = [hostileCell], comment = Some ''<h1>x</h1>'',
       rows = Some 1, cols = Some 1 \<rparr>"

section \<open>Properties\<close>

subsection \<open>Block symbols\<close>

lemma isBlockSymbol_local_iff:
  "isBlockSymbol_local name \<longleftrightarrow> name \<in> set blockSymbols"
  by (simp add: isBlockSymbol_local_def)

lemma isBlockSymbol_LadSymbols: "isBlockSymbol LadSymbols name = Inl TypeError"
  by (simp add: isBlockSymbol_def LadSymbols_def)

lemma isBlockSymbol_exampleLibrary:
  "isBlockSymbol exampleLibrary name = Inr (name \<in> set blockSymbols)"
  by (simp add: isBlockSymbol_def exampleLibrary_def isBlockSymbol_local_def)

lemma blockSymbols_library: "set blockSymbols = set (''compare'' # blockAliases)"
  by (simp add: blockSymbols_def blockAliases_def)

text \<open>
  Claim C7.  \<^verbatim>\<open>isBlockSymbol\<close> should return a boolean for every name.  The display
  library's function calls \<^verbatim>\<open>LadSymbols.isBlockSymbol\<close>, which the symbol library does
  not export: for the name \<^verbatim>\<open>tmr\<close> (and for every other name) the call raises a
  \<^verbatim>\<open>TypeError\<close> instead of returning \<^verbatim>\<open>true\<close>.  The earlier variant, which holds the list
  itself, returns \<^verbatim>\<open>true\<close> there.
\<close>

theorem isBlockSymbol_raises:
  "isBlockSymbol LadSymbols ''tmr'' = Inl TypeError \<and> isBlockSymbol_local ''tmr''"
  by (simp add: isBlockSymbol_def LadSymbols_def isBlockSymbol_local_def blockSymbols_def)

subsection \<open>Live state\<close>

lemma tags_distinct: "MB_ladderon \<noteq> MB_ladderoff"
  by (simp add: MB_ladderon_def MB_ladderoff_def)

lemma classRemove_no_tags:
  "MB_ladderon \<notin> set (classRemove cl)" "MB_ladderoff \<notin> set (classRemove cl)"
  by (simp_all add: classRemove_def)

lemma setState_eq: "setState b cl = classRemove cl @ [if b then MB_ladderon else MB_ladderoff]"
  by (simp add: setState_def classAdd_def classRemove_no_tags)

lemma classRemove_append_tag:
  "classRemove (cl @ [if b then MB_ladderon else MB_ladderoff]) = classRemove cl"
  by (simp add: classRemove_def)

lemma classRemove_idem: "classRemove (classRemove cl) = classRemove cl"
  by (simp add: classRemove_def)

lemma setState_setState: "setState b (setState b' cl) = setState b cl"
  by (simp only: setState_eq classRemove_append_tag classRemove_idem)

lemma on_setState: "MB_ladderon \<in> set (setState b cl) \<longleftrightarrow> b"
  using tags_distinct by (auto simp: setState_eq classRemove_no_tags)

lemma off_setState: "MB_ladderoff \<in> set (setState b cl) \<longleftrightarrow> \<not> b"
  using tags_distinct by (auto simp: setState_eq classRemove_no_tags)

lemma other_setState:
  "c \<noteq> MB_ladderon \<Longrightarrow> c \<noteq> MB_ladderoff \<Longrightarrow> c \<in> set (setState b cl) \<longleftrightarrow> c \<in> set cl"
  by (auto simp: setState_eq classRemove_def)

lemma isPrimitive_classList [simp]: "isPrimitive (el\<lparr> classList := x \<rparr>) = isPrimitive el"
  by (simp add: isPrimitive_def)

lemma updateSvg_updateSvg: "updateSvg b (updateSvg b' s) = updateSvg b s"
  by (simp add: updateSvg_def setState_setState comp_def if_distrib cong: if_cong)

lemma updateValue_idem: "updateValue d (updateValue d v) = updateValue d v"
  by (simp add: updateValue_def split: option.splits)

lemma ladder_cell_setState:
  "''ladder-cell'' \<in> set (setState b cl) \<longleftrightarrow> ''ladder-cell'' \<in> set cl"
  by (rule other_setState) (simp_all add: MB_ladderon_def MB_ladderoff_def)

lemma cellAddresses_updateCell: "cellAddresses (updateCell dv c) = cellAddresses c"
  by (simp add: updateCell_def Let_def cellAddresses_def ladder_cell_setState)

lemma updateCell_idem: "updateCell dv (updateCell dv c) = updateCell dv c"
proof (cases "cellAddresses c = []")
  case True
  then show ?thesis by (simp add: updateCell_def)
next
  case False
  then show ?thesis
    by (simp add: updateCell_def[of dv "updateCell dv c"] cellAddresses_updateCell Let_def)
       (simp add: updateCell_def Let_def setState_setState updateSvg_updateSvg updateValue_idem
          option.map_comp comp_def)
qed

lemma scan_fst:
  "fst (foldl (scanStep dv) st as) \<longleftrightarrow> fst st \<or> (\<exists>a\<in>set as. \<exists>v. dv a = Some v \<and> turnsOn v)"
proof (induction as arbitrary: st)
  case Nil
  then show ?case by simp
next
  case (Cons a as)
  show ?case
    by (simp add: Cons.IH) (auto simp: scanStep_def turnsOn_def split: option.splits jsvalue.splits)
qed

lemma scanStep_snd:
  "snd (scanStep dv st a) =
     (case dv a of None \<Rightarrow> snd st | Some v \<Rightarrow> if displayable v then Some v else snd st)"
  by (simp add: scanStep_def displayable_def split: option.splits jsvalue.splits)

lemma lastDisplayable_Nil: "lastDisplayable dv [] = None"
  by (simp add: lastDisplayable_def List.map_filter_simps)

lemma lastDisplayable_snoc:
  "lastDisplayable dv (as @ [a]) =
     (case dv a of
        None \<Rightarrow> lastDisplayable dv as
      | Some v \<Rightarrow> if displayable v then Some v else lastDisplayable dv as)"
  by (simp add: lastDisplayable_def List.map_filter_def split: option.splits)

lemma scan_snd:
  "snd (foldl (scanStep dv) st as) =
     (case lastDisplayable dv as of None \<Rightarrow> snd st | Some v \<Rightarrow> Some v)"
proof (induction as rule: rev_induct)
  case Nil
  then show ?case by (simp add: lastDisplayable_Nil)
next
  case (snoc a as)
  then show ?case
    by (simp add: scanStep_snd lastDisplayable_snoc split: option.splits)
qed




lemma updateCell_skip: "cellAddresses c = [] \<Longrightarrow> updateCell dv c = c"
  by (simp add: updateCell_def)

lemma shown_history_free: "shown (updateCell dv (updateCell dv' c)) = shown (updateCell dv c)"
proof (cases "cellAddresses c = []")
  case True
  then show ?thesis by (simp add: updateCell_skip)
next
  case False
  then show ?thesis
    by (simp add: updateCell_def[of dv "updateCell dv' c"] cellAddresses_updateCell Let_def)
       (simp add: updateCell_def Let_def setState_setState updateSvg_updateSvg shown_def
          displayedValue_def updateValue_def option.map_comp comp_def
          split: option.splits)
qed

lemma exampleCell_addresses: "cellAddresses exampleCell = [''C1'', ''C2'']"
  by (simp add: cellAddresses_def exampleCell_def monitored_def)

lemma exampleIdleCell_addresses: "cellAddresses exampleIdleCell = []"
  by (simp add: cellAddresses_def exampleIdleCell_def)

lemma example_scan: "scan exampleValues [''C1'', ''C2''] = (True, Some (JStr ''idle''))"
  by (simp add: scan_def scanStep_def exampleValues_def)

text \<open>
  The sentence of claim C4 on the displayed value, read for every monitored address, fails
  where a later address carries a displayable value: with the addresses \<^verbatim>\<open>C1,C2\<close>, the
  number 5 at \<^verbatim>\<open>C1\<close> and the string \<^verbatim>\<open>idle\<close> at \<^verbatim>\<open>C2\<close>, the cell is on and shows
  \<^verbatim>\<open>idle\<close>, not the number.
\<close>

theorem displayed_value_counterexample:
  "cellAddresses exampleCell = [''C1'', ''C2''] \<and>
   exampleValues ''C1'' = Some (JNum (Finite 5)) \<and>
   Finite 5 \<noteq> Finite 0 \<and>
   isOnCell (hd (updateCellStates exampleValues [exampleCell])) \<and>
   displayedValue (hd (updateCellStates exampleValues [exampleCell])) = Some (Text ''idle'') \<and>
   formatValue (JNum (Finite 5)) = NumberToString (Finite 5)"
  by (simp add: exampleCell_addresses updateCellStates_def updateCell_def example_scan
        isOnCell_def hasTag_def on_setState displayedValue_def)
     (simp add: exampleValues_def exampleCell_def exampleValueEl_def updateValue_def
        formatValue_def toStr_def isInteger_def)

text \<open>
  Claim C4, amended.  For a rendered cell with a non-empty list of monitored addresses,
  after \<^verbatim>\<open>updateCellStates\<close> the cell is tagged on if and only if some monitored address
  maps to \<^verbatim>\<open>true\<close> or to a number other than zero, and tagged off otherwise; the value
  displayed is that of the last monitored address (in the order of the attribute) whose
  value is a number or another non-boolean, non-null, non-undefined value, formatted by
  \<^verbatim>\<open>formatValue\<close> (a number by \<^verbatim>\<open>toString\<close> when it is an integer, by \<^verbatim>\<open>toFixed(2)\<close>
  otherwise); if no monitored address is present in the map the cell is off and displays
  no value.
\<close>

theorem updateCellStates_projection:
  assumes "i < length doc" and "cellAddresses (doc ! i) \<noteq> []"
  shows "(isOnCell (updateCellStates dv doc ! i) \<longleftrightarrow>
            (\<exists>a\<in>set (cellAddresses (doc ! i)). \<exists>v. dv a = Some v \<and> turnsOn v)) \<and>
         (isOffCell (updateCellStates dv doc ! i) \<longleftrightarrow> \<not> isOnCell (updateCellStates dv doc ! i)) \<and>
         (cellValue (doc ! i) \<noteq> None \<longrightarrow>
            displayedValue (updateCellStates dv doc ! i) =
              map_option formatValue (lastDisplayable dv (cellAddresses (doc ! i)))) \<and>
         ((\<forall>a\<in>set (cellAddresses (doc ! i)). dv a = None) \<longrightarrow>
            isOffCell (updateCellStates dv doc ! i) \<and>
            displayedValue (updateCellStates dv doc ! i) = None) \<and>
         formatValue (JNum n) = (if isInteger n then NumberToString n else NumberToFixed n 2) \<and>
         formatValue (JStr str) = Text str"
proof -
  let ?c = "doc ! i"
  let ?as = "cellAddresses ?c"
  have upd: "updateCellStates dv doc ! i = updateCell dv ?c"
    using assms(1) by (simp add: updateCellStates_def)
  have cl: "cellClassList (updateCell dv ?c) = setState (fst (scan dv ?as)) (cellClassList ?c)"
    using assms(2) by (simp add: updateCell_def Let_def)
  have on: "isOnCell (updateCell dv ?c) \<longleftrightarrow> fst (scan dv ?as)"
    by (simp add: isOnCell_def hasTag_def cl on_setState)
  have off: "isOffCell (updateCell dv ?c) \<longleftrightarrow> \<not> fst (scan dv ?as)"
    by (simp add: isOffCell_def hasTag_def cl off_setState)
  have fst_scan: "fst (scan dv ?as) \<longleftrightarrow> (\<exists>a\<in>set ?as. \<exists>v. dv a = Some v \<and> turnsOn v)"
    by (simp add: scan_def scan_fst)
  have snd_scan: "snd (scan dv ?as) = lastDisplayable dv ?as"
    by (simp add: scan_def scan_snd split: option.splits)
  have shown: "displayedValue (updateCell dv ?c) = map_option formatValue (lastDisplayable dv ?as)"
    if "cellValue ?c \<noteq> None"
    using that assms(2)
    by (auto simp: updateCell_def Let_def displayedValue_def updateValue_def snd_scan
          split: option.splits)
  have absent: "isOffCell (updateCell dv ?c) \<and> displayedValue (updateCell dv ?c) = None"
    if none: "\<forall>a\<in>set ?as. dv a = None"
  proof -
    have "\<not> fst (scan dv ?as)"
      using none by (simp add: fst_scan)
    moreover have "List.map_filter dv ?as = []"
      using none by (simp add: List.map_filter_def filter_empty_conv)
    then have "lastDisplayable dv ?as = None"
      by (simp add: lastDisplayable_def)
    then have "displayedValue (updateCell dv ?c) = None"
      using assms(2)
      by (auto simp: updateCell_def Let_def displayedValue_def updateValue_def snd_scan
            split: option.splits)
    ultimately show ?thesis by (simp add: off)
  qed
  have fmt: "formatValue (JNum n) = (if isInteger n then NumberToString n else NumberToFixed n 2)"
    "formatValue (JStr str) = Text str"
    by (simp_all add: formatValue_def toStr_def)
  have "(isOnCell (updateCell dv ?c) \<longleftrightarrow> (\<exists>a\<in>set ?as. \<exists>v. dv a = Some v \<and> turnsOn v)) \<and>
        (isOffCell (updateCell dv ?c) \<longleftrightarrow> \<not> isOnCell (updateCell dv ?c)) \<and>
        (cellValue ?c \<noteq> None \<longrightarrow>
           displayedValue (updateCell dv ?c) = map_option formatValue (lastDisplayable dv ?as)) \<and>
        ((\<forall>a\<in>set ?as. dv a = None) \<longrightarrow>
           isOffCell (updateCell dv ?c) \<and> displayedValue (updateCell dv ?c) = None)"
    using on off fst_scan shown absent by blast
  then show ?thesis
    unfolding upd using fmt by simp
qed

theorem updateCellStates_projection_witness:
  "0 < length [exampleCell] \<and> cellAddresses ([exampleCell] ! 0) \<noteq> [] \<and>
   isOnCell (updateCellStates exampleValues [exampleCell] ! 0) \<and>
   \<not> isOffCell (updateCellStates exampleValues [exampleCell] ! 0) \<and>
   displayedValue (updateCellStates exampleValues [exampleCell] ! 0) = Some (Text ''idle'')"
proof -
  have a: "0 < length [exampleCell]" by simp
  have b: "cellAddresses ([exampleCell] ! 0) \<noteq> []" by (simp add: exampleCell_addresses)
  have v: "cellValue ([exampleCell] ! 0) \<noteq> None" by (simp add: exampleCell_def)
  have t: "turnsOn (JNum (Finite 5))" by (simp add: turnsOn_def)
  have l: "lastDisplayable exampleValues [''C1'', ''C2''] = Some (JStr ''idle'')"
    by (simp add: lastDisplayable_def List.map_filter_def exampleValues_def displayable_def)
  have e: "exampleValues ''C1'' = Some (JNum (Finite 5))" by (simp add: exampleValues_def)
  show ?thesis
    using updateCellStates_projection [OF a b, of exampleValues] v t l e
    by (simp add: exampleCell_addresses formatValue_def toStr_def)
qed

text \<open>
  Claim C5.  \<^verbatim>\<open>updateCellStates\<close> is idempotent: a second call with the same map leaves
  every cell as the first call left it (tags, SVG classes, value element).  It keeps no
  history: what the cells show after a call (class lists, SVG, displayed value) is the
  same whether or not another map was applied before.
\<close>

theorem updateCellStates_idempotent:
  "updateCellStates dv (updateCellStates dv doc) = updateCellStates dv doc \<and>
   map shown (updateCellStates dv (updateCellStates dv' doc)) = map shown (updateCellStates dv doc)"
  by (simp add: updateCellStates_def updateCell_idem shown_history_free)



subsection \<open>The layout of a rung\<close>

lemma placeCells_placeAll:
  "int ncols < 2 ^ 32 \<Longrightarrow>
   placeCells nrows ncols cs = placeAll nrows ncols (replicate nrows (\<lambda>i. None), []) cs"
  by (simp add: placeCells_def emptyGrid_def)

lemma placeCells_RangeError:
  "0 < nrows \<Longrightarrow> 2 ^ 32 \<le> int ncols \<Longrightarrow> placeCells nrows ncols cs = Inl RangeError"
  by (simp add: placeCells_def emptyGrid_def)

lemma rungRows_pos: "0 < rungRows rg"
  by (simp add: rungRows_def natOr_def split: option.splits)

lemma placeCell_Inl_iff:
  "placeCell nrows ncols st x = Inl TypeError \<longleftrightarrow>
     cellRow x < 0 \<and> cellCol x < int ncols"
  by (auto simp: placeCell_def Let_def)

lemma placeCell_Inl: "placeCell nrows ncols st x = Inl e \<Longrightarrow> e = TypeError"
  by (auto simp: placeCell_def Let_def split: if_splits)

lemma placeCell_length:
  "placeCell nrows ncols st x = Inr st' \<Longrightarrow> length (fst st') = length (fst st)"
  by (auto simp: placeCell_def Let_def split: if_splits)

lemma placeCell_lookup:
  assumes "placeCell nrows ncols st x = Inr st'" and "length (fst st) = nrows" and "r < nrows"
  shows "(fst st' ! r) c =
           (if cellRow x = int r \<and> cellCol x = c \<and> c < int ncols then Some x
            else (fst st ! r) c)"
proof (cases "cellRow x < int nrows \<and> cellCol x < int ncols")
  case False
  then have "st' = st"
    using assms(1) by (auto simp: placeCell_def Let_def split: if_splits)
  then show ?thesis
    using False assms(3) by auto
next
  case True
  then have pos: "0 \<le> cellRow x"
    and st': "st' = ((fst st)[nat (cellRow x) := (fst st ! nat (cellRow x))(cellCol x := Some x)],
                     if cellRow x > 0 then setAdd (cellCol x) (snd st) else snd st)"
    using assms(1) by (auto simp: placeCell_def Let_def split: if_splits)
  have eq: "nat (cellRow x) = r \<longleftrightarrow> cellRow x = int r"
    using pos by auto
  have "nat (cellRow x) < length (fst st)"
    using True pos assms(2) by auto
  then show ?thesis
    using True assms(2,3) eq by (auto simp: st' nth_list_update)
qed

lemma setAdd_set: "set (setAdd c s) = insert c (set s)"
  by (auto simp: setAdd_def)

lemma setAdd_distinct: "distinct s \<Longrightarrow> distinct (setAdd c s)"
  by (simp add: setAdd_def)

lemma placeCell_branch:
  "placeCell nrows ncols st x = Inr st' \<Longrightarrow>
   set (snd st') =
     set (snd st) \<union> (if cellRow x < int nrows \<and> cellCol x < int ncols \<and> 0 < cellRow x
                       then {cellCol x} else {})"
  by (auto simp: placeCell_def Let_def setAdd_set split: if_splits)

lemma placeCell_distinct:
  "placeCell nrows ncols st x = Inr st' \<Longrightarrow> distinct (snd st) \<Longrightarrow> distinct (snd st')"
  by (auto simp: placeCell_def Let_def setAdd_distinct split: if_splits)

lemma placeAll_Cons_Inr:
  assumes "placeAll nrows ncols st (x # xs) = Inr st'"
  obtains st1 where "placeCell nrows ncols st x = Inr st1" and "placeAll nrows ncols st1 xs = Inr st'"
  using assms by (auto split: sum.splits)

lemma placeAll_length:
  "placeAll nrows ncols st cs = Inr st' \<Longrightarrow> length (fst st') = length (fst st)"
proof (induction cs arbitrary: st)
  case Nil
  then show ?case by simp
next
  case (Cons x cs)
  from Cons.prems obtain st1 where
    a: "placeCell nrows ncols st x = Inr st1" and b: "placeAll nrows ncols st1 cs = Inr st'"
    by (rule placeAll_Cons_Inr)
  show ?case
    using Cons.IH[OF b] placeCell_length[OF a] by simp
qed

lemma placeAll_lookup_None:
  assumes "placeAll nrows ncols st cs = Inr st'" and "length (fst st) = nrows" and "r < nrows"
  shows "(fst st' ! r) c = None \<longleftrightarrow>
           (fst st ! r) c = None \<and>
           \<not> (\<exists>x\<in>set cs. cellRow x = int r \<and> cellCol x = c \<and> c < int ncols)"
  using assms
proof (induction cs arbitrary: st)
  case Nil
  then show ?case by simp
next
  case (Cons x cs)
  from Cons.prems(1) obtain st1 where
    a: "placeCell nrows ncols st x = Inr st1" and b: "placeAll nrows ncols st1 cs = Inr st'"
    by (rule placeAll_Cons_Inr)
  have len: "length (fst st1) = nrows"
    using placeCell_length[OF a] Cons.prems(2) by simp
  show ?case
    using Cons.IH[OF b len Cons.prems(3)] placeCell_lookup[OF a Cons.prems(2,3), of c]
    by auto
qed

lemma placeAll_lookup_Some:
  assumes "placeAll nrows ncols st cs = Inr st'" and "length (fst st) = nrows" and "r < nrows"
    and "(fst st' ! r) c = Some x"
  shows "(fst st ! r) c = Some x \<or>
         (x \<in> set cs \<and> cellRow x = int r \<and> cellCol x = c \<and> c < int ncols)"
  using assms
proof (induction cs arbitrary: st)
  case Nil
  then show ?case by simp
next
  case (Cons y cs)
  from Cons.prems(1) obtain st1 where
    a: "placeCell nrows ncols st y = Inr st1" and b: "placeAll nrows ncols st1 cs = Inr st'"
    by (rule placeAll_Cons_Inr)
  have len: "length (fst st1) = nrows"
    using placeCell_length[OF a] Cons.prems(2) by simp
  have "(fst st1 ! r) c = Some x \<or>
        (x \<in> set cs \<and> cellRow x = int r \<and> cellCol x = c \<and> c < int ncols)"
    using Cons.IH[OF b len Cons.prems(3,4)] .
  then show ?case
    using placeCell_lookup[OF a Cons.prems(2,3), of c] by (auto split: if_splits)
qed

lemma placeAll_branch:
  "placeAll nrows ncols st cs = Inr st' \<Longrightarrow>
   set (snd st') =
     set (snd st) \<union>
     cellCol ` {x \<in> set cs. cellRow x < int nrows \<and> cellCol x < int ncols \<and> 0 < cellRow x}"
proof (induction cs arbitrary: st)
  case Nil
  then show ?case by simp
next
  case (Cons x cs)
  from Cons.prems obtain st1 where
    a: "placeCell nrows ncols st x = Inr st1" and b: "placeAll nrows ncols st1 cs = Inr st'"
    by (rule placeAll_Cons_Inr)
  show ?case
    using Cons.IH[OF b] placeCell_branch[OF a] by auto
qed

lemma placeAll_distinct:
  "placeAll nrows ncols st cs = Inr st' \<Longrightarrow> distinct (snd st) \<Longrightarrow> distinct (snd st')"
proof (induction cs arbitrary: st)
  case Nil
  then show ?case by simp
next
  case (Cons x cs)
  from Cons.prems(1) obtain st1 where
    a: "placeCell nrows ncols st x = Inr st1" and b: "placeAll nrows ncols st1 cs = Inr st'"
    by (rule placeAll_Cons_Inr)
  show ?case
    using Cons.IH[OF b] placeCell_distinct[OF a Cons.prems(2)] by simp
qed

lemma placeAll_Inr_iff:
  "(\<exists>st'. placeAll nrows ncols st cs = Inr st') \<longleftrightarrow>
     (\<forall>x\<in>set cs. cellRow x < int nrows \<and> cellCol x < int ncols \<longrightarrow> 0 \<le> cellRow x)"
proof (induction cs arbitrary: st)
  case Nil
  then show ?case by simp
next
  case (Cons x cs)
  show ?case
  proof (cases "placeCell nrows ncols st x")
    case (Inl e)
    then have "placeCell nrows ncols st x = Inl TypeError"
      using placeCell_Inl[of nrows ncols st x e] by simp
    then have "cellRow x < 0 \<and> cellCol x < int ncols"
      by (simp add: placeCell_Inl_iff)
    then show ?thesis
      using Inl by auto
  next
    case (Inr st1)
    then have "\<not> (cellRow x < 0 \<and> cellCol x < int ncols)"
      using placeCell_Inl_iff[of nrows ncols st x] by simp
    then show ?thesis
      using Inr Cons.IH[of st1] by auto
  qed
qed

lemma placeAll_Inl: "placeAll nrows ncols st cs = Inl e \<Longrightarrow> e = TypeError"
proof (induction cs arbitrary: st)
  case Nil
  then show ?case by simp
next
  case (Cons x cs)
  show ?case
  proof (cases "placeCell nrows ncols st x")
    case (Inl e')
    then show ?thesis
      using Cons.prems placeCell_Inl[of nrows ncols st x e'] by simp
  next
    case (Inr st1)
    then show ?thesis
      using Cons.prems Cons.IH[of st1] by simp
  qed
qed

lemma maxRowAt_Max:
  "maxRowAt g nrows c = Max (insert 0 {r. r < nrows \<and> (g ! r) c \<noteq> None})"
proof (induction nrows)
  case 0
  then show ?case by (simp add: maxRowAt_def)
next
  case (Suc n)
  let ?S = "{r. r < n \<and> (g ! r) c \<noteq> None}"
  have fin: "finite ?S" by simp
  have step: "maxRowAt g (Suc n) c = (if (g ! n) c \<noteq> None then n else maxRowAt g n c)"
    by (simp add: maxRowAt_def)
  show ?case
  proof (cases "(g ! n) c \<noteq> None")
    case True
    have eq: "{r. r < Suc n \<and> (g ! r) c \<noteq> None} = insert n ?S"
      using True by (auto simp: less_Suc_eq)
    have "Max (insert 0 (insert n ?S)) = n"
      by (rule Max_eqI) (auto simp: fin)
    moreover have "maxRowAt g (Suc n) c = n"
      using True by (simp add: step)
    ultimately show ?thesis by (simp only: eq)
  next
    case False
    have eq: "{r. r < Suc n \<and> (g ! r) c \<noteq> None} = ?S"
      using False by (auto simp: less_Suc_eq)
    have "maxRowAt g (Suc n) c = maxRowAt g n c"
      using False by (simp add: step)
    then show ?thesis by (simp only: eq Suc.IH)
  qed
qed

lemma rungPlacement_Inl:
  assumes "rungPlacement rg = Inl e"
  shows "e = (if 2 ^ 32 \<le> int (rungCols rg) then RangeError else TypeError)"
proof (cases "2 ^ 32 \<le> int (rungCols rg)")
  case True
  then show ?thesis
    using assms placeCells_RangeError[OF rungRows_pos[of rg] True, of "cells rg"]
    by (simp add: rungPlacement_def)
next
  case False
  then have "placeAll (rungRows rg) (rungCols rg) (replicate (rungRows rg) (\<lambda>i. None), [])
               (cells rg) = Inl e"
    using assms by (simp add: rungPlacement_def placeCells_placeAll)
  then have "e = TypeError" by (rule placeAll_Inl)
  then show ?thesis using False by simp
qed

lemma rungPlacement_cases:
  obtains (raises) e where "rungPlacement rg = Inl e" "\<not> layoutOk rg"
  | (returns) g bc where "rungPlacement rg = Inr (g, bc)" "layoutOk rg"
      "rungGrid rg = g" "rungBranchCols rg = bc"
proof (cases "rungPlacement rg")
  case (Inl e)
  then show ?thesis
    by (intro raises[of e]) (simp_all add: layoutOk_def)
next
  case (Inr p)
  then have "rungPlacement rg = Inr (fst p, snd p)" by simp
  then show ?thesis
    by (intro returns[of "fst p" "snd p"])
       (simp_all add: layoutOk_def rungGrid_def rungBranchCols_def)
qed

lemma layoutOk_placement:
  "layoutOk rg \<Longrightarrow> rungPlacement rg = Inr (rungGrid rg, rungBranchCols rg)"
  by (cases rg rule: rungPlacement_cases) simp_all

lemma layoutOk_iff:
  "layoutOk rg \<longleftrightarrow>
     int (rungCols rg) < 2 ^ 32 \<and> (\<forall>x\<in>set (cells rg). placed rg x \<longrightarrow> 0 \<le> cellRow x)"
proof (cases "int (rungCols rg) < 2 ^ 32")
  case True
  have "layoutOk rg \<longleftrightarrow> (\<exists>p. rungPlacement rg = Inr p)"
    by (auto simp: layoutOk_def split: sum.splits)
  also have "\<dots> \<longleftrightarrow> (\<forall>x\<in>set (cells rg). placed rg x \<longrightarrow> 0 \<le> cellRow x)"
    unfolding rungPlacement_def placeCells_placeAll[OF True] placed_def
    by (rule placeAll_Inr_iff)
  finally show ?thesis using True by simp
next
  case False
  then have "rungPlacement rg = Inl RangeError"
    using placeCells_RangeError[OF rungRows_pos[of rg], of "rungCols rg" "cells rg"]
    by (simp add: rungPlacement_def)
  then show ?thesis
    using False by (simp add: layoutOk_def)
qed

lemma layoutOk_cols: "layoutOk rg \<Longrightarrow> int (rungCols rg) < 2 ^ 32"
  by (simp add: layoutOk_iff)

lemma layoutOk_placeAll:
  assumes "layoutOk rg"
  shows "placeAll (rungRows rg) (rungCols rg) (replicate (rungRows rg) (\<lambda>i. None), [])
           (cells rg) = Inr (rungGrid rg, rungBranchCols rg)"
  using layoutOk_placement[OF assms] layoutOk_cols[OF assms]
  by (simp add: rungPlacement_def placeCells_placeAll)

lemma rungGrid_length: "length (rungGrid rg) = rungRows rg"
proof (cases "layoutOk rg")
  case False
  then show ?thesis
    by (simp add: rungGrid_def layoutOk_def split: sum.splits)
next
  case True
  then show ?thesis
    using placeAll_length[OF layoutOk_placeAll[OF True]] by simp
qed

lemma rungGrid_None:
  assumes "layoutOk rg" and "r < rungRows rg"
  shows "(rungGrid rg ! r) c = None \<longleftrightarrow>
           \<not> (\<exists>x\<in>set (cells rg). cellRow x = int r \<and> cellCol x = c \<and> c < int (rungCols rg))"
  using placeAll_lookup_None[OF layoutOk_placeAll[OF assms(1)], of r c] assms(2)
  by simp

lemma rungGrid_Some:
  assumes "layoutOk rg" and "r < rungRows rg" and "(rungGrid rg ! r) c = Some x"
  shows "x \<in> set (cells rg) \<and> cellRow x = int r \<and> cellCol x = c \<and> c < int (rungCols rg)"
  using placeAll_lookup_Some[OF layoutOk_placeAll[OF assms(1)], of r c x] assms(2,3)
  by simp

lemma rungBranchCols_set:
  assumes "layoutOk rg"
  shows "set (rungBranchCols rg) = cellCol ` {x \<in> set (cells rg). placed rg x \<and> 0 < cellRow x}"
  using placeAll_branch[OF layoutOk_placeAll[OF assms]]
  by (simp add: placed_def conj_ac)

lemma rungBranchCols_distinct: "distinct (rungBranchCols rg)"
proof (cases "layoutOk rg")
  case False
  then show ?thesis
    by (simp add: rungBranchCols_def layoutOk_def split: sum.splits)
next
  case True
  then show ?thesis
    using placeAll_distinct[OF layoutOk_placeAll[OF True]] by simp
qed

lemma placedRows_grid:
  assumes "layoutOk rg"
  shows "int ` {r. r < rungRows rg \<and> (rungGrid rg ! r) c \<noteq> None} = placedRows rg c"
proof (rule set_eqI)
  fix y
  show "y \<in> int ` {r. r < rungRows rg \<and> (rungGrid rg ! r) c \<noteq> None} \<longleftrightarrow> y \<in> placedRows rg c"
  proof
    assume "y \<in> int ` {r. r < rungRows rg \<and> (rungGrid rg ! r) c \<noteq> None}"
    then obtain r where r: "r < rungRows rg" "(rungGrid rg ! r) c \<noteq> None" "y = int r"
      by auto
    then obtain x where x: "x \<in> set (cells rg)" "cellRow x = int r" "cellCol x = c"
      "c < int (rungCols rg)"
      using rungGrid_None[OF assms r(1), of c] by auto
    then have "placed rg x"
      using r(1) by (simp add: placed_def)
    then have "cellRow x \<in> placedRows rg c"
      using x(1,3) by (simp add: placedRows_def)
    then show "y \<in> placedRows rg c"
      using r(3) x(2) by simp
  next
    assume "y \<in> placedRows rg c"
    then obtain x where x: "x \<in> set (cells rg)" "placed rg x" "cellCol x = c" "y = cellRow x"
      by (auto simp: placedRows_def)
    then have pos: "0 \<le> cellRow x"
      using assms by (simp add: layoutOk_iff)
    let ?r = "nat (cellRow x)"
    have r: "?r < rungRows rg" and eq: "cellRow x = int ?r"
      using x(2) pos by (auto simp: placed_def)
    have "(rungGrid rg ! ?r) c \<noteq> None"
      using x(1,2,3) eq by (auto simp: rungGrid_None[OF assms r] placed_def)
    then show "y \<in> int ` {r. r < rungRows rg \<and> (rungGrid rg ! r) c \<noteq> None}"
      using r eq x(4) by (metis (mono_tags, lifting) image_eqI mem_Collect_eq)
  qed
qed

lemma maxRowAt_rung:
  assumes "layoutOk rg"
  shows "int (maxRowAt (rungGrid rg) (rungRows rg) c) = maxPlacedRow rg c"
proof -
  let ?S = "insert 0 {r. r < rungRows rg \<and> (rungGrid rg ! r) c \<noteq> None}"
  have "int (Max ?S) = Max (int ` ?S)"
    by (rule mono_Max_commute) (auto simp: mono_def)
  also have "int ` ?S = insert 0 (placedRows rg c)"
    using placedRows_grid[OF assms, of c] by simp
  finally show ?thesis
    by (simp only: maxRowAt_Max maxPlacedRow_def)
qed

lemma finite_placedRows: "finite (placedRows rg c)"
  by (simp add: placedRows_def)

lemma maxPlacedRow_branch:
  assumes "layoutOk rg" and "c \<in> set (rungBranchCols rg)"
  shows "0 < maxPlacedRow rg c"
proof -
  from assms obtain x where x: "x \<in> set (cells rg)" "placed rg x" "0 < cellRow x" "cellCol x = c"
    by (auto simp: rungBranchCols_set)
  then have "cellRow x \<in> insert 0 (placedRows rg c)"
    by (auto simp: placedRows_def)
  then have "cellRow x \<le> maxPlacedRow rg c"
    unfolding maxPlacedRow_def by (intro Max_ge) (simp_all add: finite_placedRows)
  with x(3) show ?thesis by simp
qed

lemma rungConnectors_eq:
  assumes "layoutOk rg"
  shows "rungConnectors rg = map (\<lambda>c. (c, 0, nat (maxPlacedRow rg c))) (rungBranchCols rg)"
proof -
  have "connectorFor (rungGrid rg) (rungRows rg) c = [(c, 0, nat (maxPlacedRow rg c))]"
    if "c \<in> set (rungBranchCols rg)" for c
    using maxPlacedRow_branch[OF assms that] maxRowAt_rung[OF assms, of c]
    by (auto simp: connectorFor_def Let_def)
  then have h: "map (connectorFor (rungGrid rg) (rungRows rg)) (rungBranchCols rg) =
                map (\<lambda>c. [(c, 0, nat (maxPlacedRow rg c))]) (rungBranchCols rg)"
    by simp
  show ?thesis
    by (simp only: rungConnectors_def branchConnectors_def h concat_map_singleton)
qed

lemma createRungHtml_raises:
  assumes "\<not> layoutOk rg"
  shows "createRungHtml L rg = Inl (if 2 ^ 32 \<le> int (rungCols rg) then RangeError else TypeError)"
proof (cases rg rule: rungPlacement_cases)
  case (raises e)
  then show ?thesis
    using rungPlacement_Inl[OF raises(1)]
    by (simp add: createRungHtml_def rungPlacement_def Let_def)
next
  case (returns g bc)
  with assms show ?thesis by simp
qed

lemma createRungHtml_returns: "createRungHtml L rg = Inr html \<Longrightarrow> layoutOk rg"
  using createRungHtml_raises[of rg L] by (cases "layoutOk rg") simp_all

lemma createRungHtml_layoutOk:
  assumes "layoutOk rg"
  shows "createRungHtml L rg =
           (case appendAll (map (rowHtml L (rungGrid rg) (rungBranchCols rg) (rungCols rg))
                                [0 ..< rungRows rg]) of
              Inl e \<Rightarrow> Inl e
            | Inr rowsHtml \<Rightarrow>
                Inr (rungMarkup (rungnum rg) (strOr (comment rg) []) (rungRows rg) (rungCols rg)
                       rowsHtml
                       (concat (map (\<lambda>(c, minRow, maxRow). createBranchConnector c minRow maxRow)
                                    (rungConnectors rg)))))"
  using layoutOk_placement[OF assms]
  by (simp add: createRungHtml_def rungPlacement_def Let_def rungConnectors_def
        split: sum.splits)

text \<open>
  The branch connectors of a rung whose layout is computed.  There is a connector at a
  column \<open>c\<close> of the grid (\<open>c\<close> not negative) if and only if some cell within the bounds at
  column \<open>c\<close> has a row above 0 and the largest row holding a placed cell at column \<open>c\<close>
  exceeds 0; there is at most one connector per column, and it spans the rows from 0 to
  that largest row.  At any column, negative or not, the same holds of the placed cells,
  those that pass the guard \<^verbatim>\<open>row < rows && col < cols\<close>.
\<close>

lemma rungConnectors_policy:
  assumes "layoutOk rg"
  shows "(0 \<le> c \<longrightarrow>
            ((\<exists>s e. (c, s, e) \<in> set (rungConnectors rg)) \<longleftrightarrow>
               (\<exists>x\<in>set (cells rg). inBounds rg x \<and> cellCol x = c \<and> 0 < cellRow x) \<and>
               0 < maxPlacedRow rg c)) \<and>
         ((\<exists>s e. (c, s, e) \<in> set (rungConnectors rg)) \<longleftrightarrow>
            (\<exists>x\<in>set (cells rg). placed rg x \<and> cellCol x = c \<and> 0 < cellRow x) \<and>
            0 < maxPlacedRow rg c) \<and>
         distinct (map fst (rungConnectors rg)) \<and>
         (\<forall>s e. (c, s, e) \<in> set (rungConnectors rg) \<longrightarrow> s = 0 \<and> int e = maxPlacedRow rg c)"
proof -
  have mem: "(c, s, e) \<in> set (rungConnectors rg) \<longleftrightarrow>
               c \<in> set (rungBranchCols rg) \<and> s = 0 \<and> e = nat (maxPlacedRow rg c)" for s e
    by (auto simp: rungConnectors_eq[OF assms])
  have br: "c \<in> set (rungBranchCols rg) \<longleftrightarrow>
              (\<exists>x\<in>set (cells rg). placed rg x \<and> cellCol x = c \<and> 0 < cellRow x)"
    by (auto simp: rungBranchCols_set[OF assms])
  have "map fst (rungConnectors rg) = rungBranchCols rg"
    by (simp add: rungConnectors_eq[OF assms] comp_def)
  then have d: "distinct (map fst (rungConnectors rg))"
    by (simp add: rungBranchCols_distinct)
  have pos: "0 < maxPlacedRow rg c" if "c \<in> set (rungBranchCols rg)"
    using that by (rule maxPlacedRow_branch[OF assms])
  have bounds: "placed rg x = inBounds rg x" if "0 \<le> c" "x \<in> set (cells rg)" "cellCol x = c" for x
    using that assms by (auto simp: layoutOk_iff placed_def inBounds_def)
  have nonneg: "0 \<le> maxPlacedRow rg c"
    unfolding maxPlacedRow_def by (intro Max_ge) (simp_all add: finite_placedRows)
  have p2: "(\<exists>s e. (c, s, e) \<in> set (rungConnectors rg)) \<longleftrightarrow>
              (\<exists>x\<in>set (cells rg). placed rg x \<and> cellCol x = c \<and> 0 < cellRow x) \<and>
              0 < maxPlacedRow rg c"
    using pos by (simp add: mem br [symmetric]) blast
  have "(\<exists>x\<in>set (cells rg). placed rg x \<and> cellCol x = c \<and> 0 < cellRow x) \<longleftrightarrow>
        (\<exists>x\<in>set (cells rg). inBounds rg x \<and> cellCol x = c \<and> 0 < cellRow x)"
    if "0 \<le> c"
    using bounds[OF that] by blast
  with p2 have p1: "0 \<le> c \<longrightarrow>
            ((\<exists>s e. (c, s, e) \<in> set (rungConnectors rg)) \<longleftrightarrow>
               (\<exists>x\<in>set (cells rg). inBounds rg x \<and> cellCol x = c \<and> 0 < cellRow x) \<and>
               0 < maxPlacedRow rg c)"
    by simp
  have p3: "\<forall>s e. (c, s, e) \<in> set (rungConnectors rg) \<longrightarrow> s = 0 \<and> int e = maxPlacedRow rg c"
    using nonneg by (simp add: mem)
  from p1 p2 d p3 show ?thesis
    by (intro conjI)
qed

lemma rungConnectors_example:
  "layoutOk exampleRung \<and>
   (\<exists>x\<in>set (cells exampleRung). inBounds exampleRung x \<and> cellCol x = 1 \<and> 0 < cellRow x) \<and>
   rungConnectors exampleRung = [(1, 0, 2)] \<and>
   maxPlacedRow exampleRung 1 = 2"
proof -
  have ok: "layoutOk exampleRung"
    by code_simp
  have c: "rungConnectors exampleRung = [(1, 0, 2)]"
    by code_simp
  then have "(1, 0, 2) \<in> set (rungConnectors exampleRung)"
    by simp
  with rungConnectors_policy [OF ok, of 1] c ok show ?thesis
    by auto
qed

lemma hasLaterContent_rung:
  assumes "layoutOk rg" and "r < rungRows rg"
  shows "hasLaterContent (rungGrid rg) r c (rungCols rg) \<longleftrightarrow>
           (\<exists>x\<in>set (cells rg). cellRow x = int r \<and> int c < cellCol x \<and>
                                 cellCol x < int (rungCols rg))"
proof -
  have nn: "(rungGrid rg ! r) (int cc) \<noteq> None \<longleftrightarrow>
              (\<exists>x\<in>set (cells rg). cellRow x = int r \<and> cellCol x = int cc \<and>
                                    int cc < int (rungCols rg))" for cc
    using assms by (auto simp: rungGrid_None)
  have "hasLaterContent (rungGrid rg) r c (rungCols rg) \<longleftrightarrow>
          (\<exists>cc. c < cc \<and> cc < rungCols rg \<and> (rungGrid rg ! r) (int cc) \<noteq> None)"
    by (force simp: hasLaterContent_def list_ex_iff Suc_le_eq)
  also have "\<dots> \<longleftrightarrow> (\<exists>cc. c < cc \<and> cc < rungCols rg \<and>
                        (\<exists>x\<in>set (cells rg). cellRow x = int r \<and> cellCol x = int cc))"
    using nn by auto
  also have "\<dots> \<longleftrightarrow> (\<exists>x\<in>set (cells rg). cellRow x = int r \<and> int c < cellCol x \<and>
                                          cellCol x < int (rungCols rg))"
  proof
    assume "\<exists>cc. c < cc \<and> cc < rungCols rg \<and>
              (\<exists>x\<in>set (cells rg). cellRow x = int r \<and> cellCol x = int cc)"
    then show "\<exists>x\<in>set (cells rg). cellRow x = int r \<and> int c < cellCol x \<and>
                                    cellCol x < int (rungCols rg)"
      by auto
  next
    assume "\<exists>x\<in>set (cells rg). cellRow x = int r \<and> int c < cellCol x \<and>
                                 cellCol x < int (rungCols rg)"
    then obtain x where x: "x \<in> set (cells rg)" "cellRow x = int r" "int c < cellCol x"
      "cellCol x < int (rungCols rg)"
      by blast
    let ?cc = "nat (cellCol x)"
    have "c < ?cc" "?cc < rungCols rg" "cellCol x = int ?cc"
      using x(3,4) by auto
    with x(1,2) show "\<exists>cc. c < cc \<and> cc < rungCols rg \<and>
              (\<exists>x\<in>set (cells rg). cellRow x = int r \<and> cellCol x = int cc)"
      by blast
  qed
  finally show ?thesis .
qed

text \<open>
  The entry at an empty position \<open>(r, c)\<close> of the grid of a rung whose layout is computed:
  the horizontal filler when \<open>r = 0\<close>; on a row \<open>r > 0\<close> the filler if and only if a later
  column of row \<open>r\<close> holds a placed cell or column \<open>c\<close> is a branch column, and the inert
  placeholder otherwise.
\<close>

lemma rungEntry_empty:
  assumes "layoutOk rg" and "r < rungRows rg" and "c < rungCols rg" and "emptyAt rg r c"
  shows "rungEntry rg r c =
           (if r = 0 then Spacer r c
            else if laterContent rg r c \<or> branchColumn rg c then Spacer r c
            else Placeholder r c)"
proof -
  have none: "(rungGrid rg ! r) (int c) = None"
    using assms by (simp add: rungGrid_None emptyAt_def list_ex_iff)
  have later: "hasLaterContent (rungGrid rg) r c (rungCols rg) \<longleftrightarrow> laterContent rg r c"
    using assms(1,2) by (simp add: hasLaterContent_rung laterContent_def list_ex_iff)
  have px: "placed rg x \<and> 0 < cellRow x \<and> cellCol x = int c \<longleftrightarrow>
            inBounds rg x \<and> cellCol x = int c \<and> 0 < cellRow x" for x
    by (auto simp: placed_def inBounds_def)
  have "int c \<in> set (rungBranchCols rg) \<longleftrightarrow>
          (\<exists>x\<in>set (cells rg). placed rg x \<and> 0 < cellRow x \<and> cellCol x = int c)"
    by (force simp: rungBranchCols_set[OF assms(1)])
  then have br: "int c \<in> set (rungBranchCols rg) \<longleftrightarrow> branchColumn rg c"
    by (simp add: px branchColumn_def list_ex_iff)
  show ?thesis
    by (simp add: rungEntry_def gridEntry_def none later br)
qed

lemma rungEntry_empty_example:
  "layoutOk exampleRung \<and>
   emptyAt exampleRung 1 0 \<and> laterContent exampleRung 1 0 \<and> rungEntry exampleRung 1 0 = Spacer 1 0 \<and>
   emptyAt exampleRung 1 2 \<and> \<not> laterContent exampleRung 1 2 \<and> \<not> branchColumn exampleRung 2 \<and>
   rungEntry exampleRung 1 2 = Placeholder 1 2 \<and>
   emptyAt exampleRung 0 1 \<and> rungEntry exampleRung 0 1 = Spacer 0 1"
proof -
  have ok: "layoutOk exampleRung"
    by code_simp
  have b: "(1::nat) < rungRows exampleRung" "(0::nat) < rungRows exampleRung"
    "(0::nat) < rungCols exampleRung" "(1::nat) < rungCols exampleRung"
    "(2::nat) < rungCols exampleRung"
    by code_simp+
  have e: "emptyAt exampleRung 1 0" "emptyAt exampleRung 1 2" "emptyAt exampleRung 0 1"
    by code_simp+
  have l: "laterContent exampleRung 1 0" "\<not> laterContent exampleRung 1 2"
    "\<not> branchColumn exampleRung 2"
    by code_simp+
  show ?thesis
    using rungEntry_empty [OF ok b(1) b(3) e(1)] rungEntry_empty [OF ok b(1) b(5) e(2)]
      rungEntry_empty [OF ok b(2) b(4) e(3)] ok e l
    by simp
qed

lemma rungEntry_gap_example:
  "layoutOk exampleGapRung \<and>
   emptyAt exampleGapRung 1 1 \<and> \<not> laterContent exampleGapRung 1 1 \<and>
   branchColumn exampleGapRung 1 \<and> rungEntry exampleGapRung 1 1 = Spacer 1 1 \<and>
   emptyAt exampleGapRung 1 0 \<and> \<not> laterContent exampleGapRung 1 0 \<and>
   \<not> branchColumn exampleGapRung 0 \<and> rungEntry exampleGapRung 1 0 = Placeholder 1 0"
proof -
  have ok: "layoutOk exampleGapRung"
    by code_simp
  have b: "(1::nat) < rungRows exampleGapRung" "(1::nat) < rungCols exampleGapRung"
    "(0::nat) < rungCols exampleGapRung"
    by code_simp+
  have e: "emptyAt exampleGapRung 1 1" "emptyAt exampleGapRung 1 0"
    by code_simp+
  have l: "\<not> laterContent exampleGapRung 1 1" "branchColumn exampleGapRung 1"
    "\<not> laterContent exampleGapRung 1 0" "\<not> branchColumn exampleGapRung 0"
    by code_simp+
  show ?thesis
    using rungEntry_empty [OF ok b(1) b(2) e(1)] rungEntry_empty [OF ok b(1) b(3) e(2)] ok e l
    by simp
qed

lemma placeCell_skip:
  "\<not> (cellRow x < int nrows \<and> cellCol x < int ncols) \<Longrightarrow> placeCell nrows ncols st x = Inr st"
  by (auto simp: placeCell_def Let_def)

lemma placeAll_filter:
  "placeAll nrows ncols st (filter (\<lambda>x. cellRow x < int nrows \<and> cellCol x < int ncols) cs) =
   placeAll nrows ncols st cs"
proof (induction cs arbitrary: st)
  case Nil
  then show ?case by simp
next
  case (Cons x cs)
  show ?case
  proof (cases "cellRow x < int nrows \<and> cellCol x < int ncols")
    case True
    then show ?thesis
      by (simp add: Cons.IH split: sum.splits)
  next
    case False
    then show ?thesis
      using placeCell_skip[OF False, of st] by (simp add: Cons.IH)
  qed
qed

lemma dropOutOfRange_cells:
  assumes "nonNegative rg"
  shows "cells (dropOutOfRange rg) =
           filter (\<lambda>x. cellRow x < int (rungRows rg) \<and> cellCol x < int (rungCols rg)) (cells rg)"
proof -
  have "inBounds rg x \<longleftrightarrow> cellRow x < int (rungRows rg) \<and> cellCol x < int (rungCols rg)"
    if "x \<in> set (cells rg)" for x
    using assms that by (auto simp: nonNegative_def list_all_iff inBounds_def)
  then show ?thesis
    by (simp add: dropOutOfRange_def cong: filter_cong)
qed

lemma dropOutOfRange_fields:
  "rungnum (dropOutOfRange rg) = rungnum rg" "comment (dropOutOfRange rg) = comment rg"
  "rungRows (dropOutOfRange rg) = rungRows rg" "rungCols (dropOutOfRange rg) = rungCols rg"
  by (simp_all add: dropOutOfRange_def rungRows_def rungCols_def)

lemma placeCells_filter:
  "placeCells nrows ncols (filter (\<lambda>x. cellRow x < int nrows \<and> cellCol x < int ncols) cs) =
   placeCells nrows ncols cs"
  by (simp add: placeCells_def placeAll_filter split: sum.splits)

lemma createRungHtml_dropOutOfRange:
  assumes "nonNegative rg"
  shows "createRungHtml L (dropOutOfRange rg) = createRungHtml L rg"
  by (simp add: createRungHtml_def dropOutOfRange_fields dropOutOfRange_cells[OF assms]
        placeCells_filter)

lemma nonNegative_layoutOk: "nonNegative rg \<Longrightarrow> layoutOk rg \<longleftrightarrow> int (rungCols rg) < 2 ^ 32"
  by (auto simp: layoutOk_iff nonNegative_def list_all_iff)

lemma appendAll_Inr:
  "(\<And>x. x \<in> set xs \<Longrightarrow> \<exists>s. x = Inr s) \<Longrightarrow> \<exists>s. appendAll xs = Inr s"
proof (induction xs)
  case Nil
  then show ?case by simp
next
  case (Cons x xs)
  then obtain s t where "x = Inr s" "appendAll xs = Inr t"
    by (metis list.set_intros(1) list.set_intros(2))
  then show ?case by simp
qed

lemma appendAll_Inl:
  "Inl e \<in> set xs \<Longrightarrow> \<exists>e'. appendAll xs = Inl e'"
proof (induction xs)
  case Nil
  then show ?case by simp
next
  case (Cons x xs)
  show ?case
  proof (cases x)
    case (Inl e')
    then show ?thesis by simp
  next
    case (Inr s)
    with Cons.prems have "Inl e \<in> set xs" by auto
    then obtain e' where "appendAll xs = Inl e'" using Cons.IH by blast
    then show ?thesis by (simp add: Inr)
  qed
qed

lemma createCellHtml_Inr:
  "isBlockSymbol_prop L \<noteq> None \<Longrightarrow> \<exists>h. createCellHtml L x = Inr h"
  by (auto simp: createCellHtml_def isBlockSymbol_def Let_def)

lemma createCellHtml_Inl:
  "isBlockSymbol_prop L = None \<Longrightarrow> createCellHtml L x = Inl TypeError"
  by (simp add: createCellHtml_def isBlockSymbol_def Let_def)

lemma renderEntry_Inr:
  "isBlockSymbol_prop L \<noteq> None \<or> (\<forall>x. e \<noteq> Placed x) \<Longrightarrow> \<exists>h. renderEntry L e = Inr h"
  by (cases e) (auto simp: renderEntry_def createCellHtml_Inr)

lemma rungEntry_Placed:
  assumes "layoutOk rg" and "r < rungRows rg" and "rungEntry rg r c = Placed x"
  shows "x \<in> set (cells rg) \<and> cellRow x = int r \<and> cellCol x = int c \<and> inBounds rg x"
proof -
  have "(rungGrid rg ! r) (int c) = Some x"
    using assms(3)
    by (auto simp: rungEntry_def gridEntry_def split: option.splits if_splits)
  then have "x \<in> set (cells rg) \<and> cellRow x = int r \<and> cellCol x = int c \<and>
             int c < int (rungCols rg)"
    by (rule rungGrid_Some[OF assms(1,2)])
  then show ?thesis
    using assms(2) by (simp add: inBounds_def)
qed

lemma rowEntries_rung:
  "rowEntries (rungGrid rg) (rungBranchCols rg) (rungCols rg) r =
     map (rungEntry rg r) [0 ..< rungCols rg]"
  by (simp add: rowEntries_def rungEntry_def)

lemma rowHtml_Inr:
  assumes "layoutOk rg" and "r < rungRows rg"
    and "isBlockSymbol_prop L \<noteq> None \<or> \<not> list_ex (inBounds rg) (cells rg)"
  shows "\<exists>h. rowHtml L (rungGrid rg) (rungBranchCols rg) (rungCols rg) r = Inr h"
proof -
  have "\<exists>s. y = Inr s"
    if "y \<in> set (map (renderEntry L) (map (rungEntry rg r) [0 ..< rungCols rg]))" for y
  proof -
    from that obtain c where y: "y = renderEntry L (rungEntry rg r c)"
      by auto
    have "isBlockSymbol_prop L \<noteq> None \<or> (\<forall>x. rungEntry rg r c \<noteq> Placed x)"
    proof (cases "isBlockSymbol_prop L \<noteq> None")
      case True
      then show ?thesis by simp
    next
      case False
      with assms(3) have none: "\<not> list_ex (inBounds rg) (cells rg)" by simp
      have "rungEntry rg r c \<noteq> Placed x" for x
      proof
        assume "rungEntry rg r c = Placed x"
        then have "x \<in> set (cells rg) \<and> cellRow x = int r \<and> cellCol x = int c \<and> inBounds rg x"
          by (rule rungEntry_Placed[OF assms(1,2)])
        with none show False by (auto simp: list_ex_iff)
      qed
      then show ?thesis by simp
    qed
    then show ?thesis
      unfolding y by (rule renderEntry_Inr)
  qed
  then obtain s where
    "appendAll (map (renderEntry L) (map (rungEntry rg r) [0 ..< rungCols rg])) = Inr s"
    using appendAll_Inr by blast
  then show ?thesis
    by (simp add: rowHtml_def rowEntries_rung)
qed

lemma createRungHtml_Inr:
  assumes "layoutOk rg"
    and "isBlockSymbol_prop L \<noteq> None \<or> \<not> list_ex (inBounds rg) (cells rg)"
  shows "\<exists>html. createRungHtml L rg = Inr html"
proof -
  have "\<exists>s. y = Inr s"
    if "y \<in> set (map (rowHtml L (rungGrid rg) (rungBranchCols rg) (rungCols rg)) [0 ..< rungRows rg])"
    for y
    using that rowHtml_Inr[OF assms(1) _ assms(2)] by auto
  then obtain s where
    "appendAll (map (rowHtml L (rungGrid rg) (rungBranchCols rg) (rungCols rg)) [0 ..< rungRows rg]) = Inr s"
    using appendAll_Inr by blast
  then show ?thesis
    by (simp add: createRungHtml_layoutOk[OF assms(1)])
qed

lemma createRungHtml_Inl:
  assumes "isBlockSymbol_prop L = None" and "list_ex (inBounds rg) (cells rg)"
  shows "\<exists>e. createRungHtml L rg = Inl e"
proof (cases "layoutOk rg")
  case False
  then show ?thesis using createRungHtml_raises[of rg L] by blast
next
  case True
  from assms(2) obtain x where x: "x \<in> set (cells rg)" "inBounds rg x"
    by (auto simp: list_ex_iff)
  let ?r = "nat (cellRow x)" and ?c = "nat (cellCol x)"
  have r: "?r < rungRows rg" and req: "cellRow x = int ?r"
    and c: "?c < rungCols rg" and ceq: "cellCol x = int ?c"
    using x(2) by (auto simp: inBounds_def)
  have "(rungGrid rg ! ?r) (int ?c) \<noteq> None"
    using x(1) req ceq c by (auto simp: rungGrid_None[OF True r])
  then obtain y where "rungEntry rg ?r ?c = Placed y"
    by (auto simp: rungEntry_def gridEntry_def)
  then have "renderEntry L (rungEntry rg ?r ?c) = Inl TypeError"
    by (simp add: renderEntry_def createCellHtml_Inl[OF assms(1)])
  moreover have "rungEntry rg ?r ?c \<in> set (map (rungEntry rg ?r) [0 ..< rungCols rg])"
    using c by simp
  ultimately have "Inl TypeError \<in> set (map (renderEntry L) (map (rungEntry rg ?r) [0 ..< rungCols rg]))"
    by (metis (no_types, lifting) image_eqI list.set_map)
  then obtain e1 where
    "appendAll (map (renderEntry L) (map (rungEntry rg ?r) [0 ..< rungCols rg])) = Inl e1"
    using appendAll_Inl by blast
  then have row: "rowHtml L (rungGrid rg) (rungBranchCols rg) (rungCols rg) ?r = Inl e1"
    by (simp add: rowHtml_def rowEntries_rung)
  have "?r \<in> set [0 ..< rungRows rg]"
    using r by simp
  then have "Inl e1 \<in> set (map (rowHtml L (rungGrid rg) (rungBranchCols rg) (rungCols rg))
                                [0 ..< rungRows rg])"
    using row by (metis (no_types, lifting) image_eqI list.set_map)
  then obtain e2 where
    "appendAll (map (rowHtml L (rungGrid rg) (rungBranchCols rg) (rungCols rg))
                    [0 ..< rungRows rg]) = Inl e2"
    using appendAll_Inl by blast
  then show ?thesis
    by (simp add: createRungHtml_layoutOk[OF True])
qed

lemma createRungHtml_Inr_iff:
  "(\<exists>html. createRungHtml L rg = Inr html) \<longleftrightarrow>
     layoutOk rg \<and> (isBlockSymbol_prop L \<noteq> None \<or> \<not> list_ex (inBounds rg) (cells rg))"
proof
  assume a: "\<exists>html. createRungHtml L rg = Inr html"
  have "layoutOk rg"
    using a createRungHtml_returns by blast
  moreover have "isBlockSymbol_prop L \<noteq> None \<or> \<not> list_ex (inBounds rg) (cells rg)"
    using a createRungHtml_Inl[of L rg] by auto
  ultimately show "layoutOk rg \<and>
      (isBlockSymbol_prop L \<noteq> None \<or> \<not> list_ex (inBounds rg) (cells rg))"
    by simp
next
  assume "layoutOk rg \<and> (isBlockSymbol_prop L \<noteq> None \<or> \<not> list_ex (inBounds rg) (cells rg))"
  then show "\<exists>html. createRungHtml L rg = Inr html"
    using createRungHtml_Inr by blast
qed

text \<open>
  Cells at or beyond the declared bounds are dropped: where no coordinate is negative,
  rendering a rung gives the same result as rendering it without the cells outside its
  bounds, and it returns markup exactly when \<^verbatim>\<open>cols\<close> is an array length and either the
  symbol library provides \<^verbatim>\<open>isBlockSymbol\<close> or no cell is within the bounds.
\<close>

lemma out_of_range_beyond:
  assumes "nonNegative rg"
  shows "createRungHtml L rg = createRungHtml L (dropOutOfRange rg) \<and>
         ((\<exists>html. createRungHtml L rg = Inr html) \<longleftrightarrow>
            int (rungCols rg) < 2 ^ 32 \<and>
            (isBlockSymbol_prop L \<noteq> None \<or> \<not> list_ex (inBounds rg) (cells rg)))"
  using createRungHtml_dropOutOfRange[OF assms, of L] nonNegative_layoutOk[OF assms]
  by (simp add: createRungHtml_Inr_iff)

text \<open>
  Claim C6.  A cell outside \<open>[0, rows) \<times> [0, cols)\<close> should be omitted and the rendering
  should not fail.  The guard \<^verbatim>\<open>row < rows && col < cols\<close> has no lower bound: a cell on
  row -1 passes it and \<^verbatim>\<open>grid[row][col] = cell\<close> raises a \<^verbatim>\<open>TypeError\<close>, whatever the
  symbol library; a cell on column -1 of a branch row passes it too and, though outside
  the bounds, gets a branch connector at column -1.
\<close>

theorem out_of_range_negative:
  "\<not> inBounds negativeRowRung (hd (cells negativeRowRung)) \<and>
   createRungHtml L negativeRowRung = Inl TypeError \<and>
   \<not> list_ex (inBounds negativeColRung) (cells negativeColRung) \<and>
   (\<exists>html. createRungHtml L negativeColRung = Inr html) \<and>
   rungConnectors negativeColRung = [(- 1, 0, 1)]"
proof -
  have a: "\<not> inBounds negativeRowRung (hd (cells negativeRowRung))"
    by code_simp
  have "\<not> layoutOk negativeRowRung"
    by code_simp
  moreover have "rungCols negativeRowRung = 1"
    by code_simp
  ultimately have b: "createRungHtml L negativeRowRung = Inl TypeError"
    using createRungHtml_raises[of negativeRowRung L] by simp
  have c: "\<not> list_ex (inBounds negativeColRung) (cells negativeColRung)"
    by code_simp
  have "layoutOk negativeColRung"
    by code_simp
  then have r: "\<exists>html. createRungHtml L negativeColRung = Inr html"
    using c by (simp add: createRungHtml_Inr_iff)
  have d: "rungConnectors negativeColRung = [(- 1, 0, 1)]"
    by code_simp
  from a b c r d show ?thesis by simp
qed

text \<open>
  The markup of a rung that is rendered, piece by piece: the rows in order, each with the
  pieces of its grid positions in order, then the branch connectors of the rung.
\<close>

lemma appendAll_map_Inr:
  "appendAll (map f xs) = Inr s \<Longrightarrow>
   s = concat (map (\<lambda>x. projr (f x)) xs) \<and> (\<forall>x\<in>set xs. f x = Inr (projr (f x)))"
proof (induction xs arbitrary: s)
  case Nil
  then show ?case by simp
next
  case (Cons x xs)
  from Cons.prems obtain h t where h: "f x = Inr h" and t: "appendAll (map f xs) = Inr t"
    and s: "s = h @ t"
    by (auto split: sum.splits)
  from Cons.IH[OF t] h s show ?case by simp
qed

lemma rowHtml_pieces:
  assumes "rowHtml L (rungGrid rg) (rungBranchCols rg) (rungCols rg) r = Inr h"
  shows \<open>h = ''<div class="''
              @ (if r = 0 then ''ladder-row ladder-row-main'' else ''ladder-row ladder-row-branch'')
              @ ''" data-row="'' @ showNat r @ ''">''
              @ concat (map (\<lambda>c. projr (renderEntry L (rungEntry rg r c))) [0 ..< rungCols rg])
              @ ''</div>'' \<and>
         (\<forall>c<rungCols rg. renderEntry L (rungEntry rg r c) =
                             Inr (projr (renderEntry L (rungEntry rg r c))))\<close>
proof -
  from assms obtain s where
    s: "appendAll (map (\<lambda>c. renderEntry L (rungEntry rg r c)) [0 ..< rungCols rg]) = Inr s"
    and h: \<open>h = ''<div class="''
              @ (if r = 0 then ''ladder-row ladder-row-main'' else ''ladder-row ladder-row-branch'')
              @ ''" data-row="'' @ showNat r @ ''">'' @ s @ ''</div>''\<close>
    by (auto simp: rowHtml_def rowEntries_rung comp_def Let_def split: sum.splits)
  from appendAll_map_Inr[OF s] h show ?thesis by simp
qed

lemma createRungHtml_pieces:
  assumes "createRungHtml L rg = Inr html"
  shows \<open>html =
           rungMarkup (rungnum rg) (strOr (comment rg) []) (rungRows rg) (rungCols rg)
             (concat (map (\<lambda>r. ''<div class="''
                                  @ (if r = 0 then ''ladder-row ladder-row-main''
                                     else ''ladder-row ladder-row-branch'')
                                  @ ''" data-row="'' @ showNat r @ ''">''
                                  @ concat (map (\<lambda>c. projr (renderEntry L (rungEntry rg r c)))
                                                [0 ..< rungCols rg])
                                  @ ''</div>'')
                          [0 ..< rungRows rg]))
             (concat (map (\<lambda>(c, minRow, maxRow). createBranchConnector c minRow maxRow)
                          (rungConnectors rg))) \<and>
         (\<forall>r<rungRows rg. \<forall>c<rungCols rg.
            renderEntry L (rungEntry rg r c) = Inr (projr (renderEntry L (rungEntry rg r c))))\<close>
proof -
  let ?row = "rowHtml L (rungGrid rg) (rungBranchCols rg) (rungCols rg)"
  have ok: "layoutOk rg"
    using assms by (rule createRungHtml_returns)
  from assms obtain rowsHtml where
    r: "appendAll (map ?row [0 ..< rungRows rg]) = Inr rowsHtml"
    and h: "html = rungMarkup (rungnum rg) (strOr (comment rg) []) (rungRows rg) (rungCols rg)
                     rowsHtml
                     (concat (map (\<lambda>(c, minRow, maxRow). createBranchConnector c minRow maxRow)
                                  (rungConnectors rg)))"
    by (auto simp: createRungHtml_layoutOk[OF ok] split: sum.splits)
  have rows: "rowsHtml = concat (map (\<lambda>r. projr (?row r)) [0 ..< rungRows rg])"
    and each: "\<forall>r\<in>set [0 ..< rungRows rg]. ?row r = Inr (projr (?row r))"
    using appendAll_map_Inr[OF r] by simp_all
  have p: \<open>projr (?row r) = ''<div class="''
              @ (if r = 0 then ''ladder-row ladder-row-main'' else ''ladder-row ladder-row-branch'')
              @ ''" data-row="'' @ showNat r @ ''">''
              @ concat (map (\<lambda>c. projr (renderEntry L (rungEntry rg r c))) [0 ..< rungCols rg])
              @ ''</div>''\<close>
    and q: "\<forall>c<rungCols rg. renderEntry L (rungEntry rg r c) =
                             Inr (projr (renderEntry L (rungEntry rg r c)))"
    if "r < rungRows rg" for r
  proof -
    have "?row r = Inr (projr (?row r))"
      using each that by simp
    from rowHtml_pieces[OF this] show
      \<open>projr (?row r) = ''<div class="''
              @ (if r = 0 then ''ladder-row ladder-row-main'' else ''ladder-row ladder-row-branch'')
              @ ''" data-row="'' @ showNat r @ ''">''
              @ concat (map (\<lambda>c. projr (renderEntry L (rungEntry rg r c))) [0 ..< rungCols rg])
              @ ''</div>''\<close>
      and "\<forall>c<rungCols rg. renderEntry L (rungEntry rg r c) =
                             Inr (projr (renderEntry L (rungEntry rg r c)))"
      by blast+
  qed
  have \<open>map (\<lambda>r. projr (?row r)) [0 ..< rungRows rg] =
        map (\<lambda>r. ''<div class="''
                    @ (if r = 0 then ''ladder-row ladder-row-main''
                       else ''ladder-row ladder-row-branch'')
                    @ ''" data-row="'' @ showNat r @ ''">''
                    @ concat (map (\<lambda>c. projr (renderEntry L (rungEntry rg r c)))
                                  [0 ..< rungCols rg])
                    @ ''</div>'')
            [0 ..< rungRows rg]\<close>
    by (rule map_cong) (simp_all add: p)
  with h rows q show ?thesis by simp
qed

text \<open>
  On a rung that is rendered, the piece at an empty position is the horizontal filler on
  row 0 and, on a row above 0, the filler if a later column of the row holds a placed cell
  or the column is a branch column, and the inert placeholder otherwise; its connectors
  are those of \<open>rungConnectors_policy\<close>.
\<close>

lemma empty_positions_rendered:
  assumes "createRungHtml L rg = Inr html"
    and "r < rungRows rg" and "c < rungCols rg" and "emptyAt rg r c"
  shows "projr (renderEntry L (rungEntry rg r c)) =
           (if r = 0 \<or> laterContent rg r c \<or> branchColumn rg c then createSpacerHtml L r c
            else emptyPlaceholderHtml r c)"
proof -
  have ok: "layoutOk rg"
    using assms(1) by (rule createRungHtml_returns)
  show ?thesis
    by (simp add: rungEntry_empty[OF ok assms(2-4)] renderEntry_def)
qed

text \<open>
  Claim C1.  A branch connector should be emitted at a column only if some cell within the
  bounds stands there on a row above 0.  The guard \<^verbatim>\<open>row < rows && col < cols\<close> has no
  lower bound (the defect of claim C6): the rung of 2 rows and 1 column whose only cell
  stands on row 1, column -1 has no cell within its bounds, and the markup
  \<^verbatim>\<open>createRungHtml\<close> returns for it, whatever the symbol library, ends with a branch
  connector at column -1 that spans the rows 0 to 1.  On a rung without a negative
  coordinate the connectors are as the claim says (lemmas \<open>createRungHtml_pieces\<close> and
  \<open>rungConnectors_policy\<close>).
\<close>

theorem branch_connector_outside_bounds:
  \<open>\<not> list_ex (inBounds negativeColRung) (cells negativeColRung) \<and>
   createRungHtml L negativeColRung =
     Inr (rungMarkup 4 [] 2 1
            (''<div class="ladder-row ladder-row-main" data-row="0">''
               @ createSpacerHtml L 0 0 @ ''</div>''
             @ ''<div class="ladder-row ladder-row-branch" data-row="1">''
               @ emptyPlaceholderHtml 1 0 @ ''</div>'')
            (createBranchConnector (- 1) 0 1))\<close>
proof -
  have a: "\<not> list_ex (inBounds negativeColRung) (cells negativeColRung)"
    by code_simp
  have ok: "layoutOk negativeColRung"
    by code_simp
  have f: "rungnum negativeColRung = 4" "strOr (comment negativeColRung) [] = []"
    "rungRows negativeColRung = 2" "rungCols negativeColRung = 1"
    by code_simp+
  have e: "rungEntry negativeColRung 0 0 = Spacer 0 0"
    "rungEntry negativeColRung 1 0 = Placeholder 1 0"
    by code_simp+
  have c: "rungConnectors negativeColRung = [(- 1, 0, 1)]"
    by code_simp
  have e': "rungEntry negativeColRung (Suc 0) 0 = Placeholder (Suc 0) 0"
    using e(2) by simp
  have n: "showNat 0 = ''0''" "showNat (Suc 0) = ''1''"
    by (simp_all add: showNat.simps)
  have u: "[0 ..< (2::nat)] = [0, Suc 0]"
    by (simp add: upt_rec)
  obtain html where h: "createRungHtml L negativeColRung = Inr html"
    using createRungHtml_Inr[OF ok, of L] a by blast
  have \<open>html = rungMarkup 4 [] 2 1
            (''<div class="ladder-row ladder-row-main" data-row="0">''
               @ createSpacerHtml L 0 0 @ ''</div>''
             @ ''<div class="ladder-row ladder-row-branch" data-row="1">''
               @ emptyPlaceholderHtml 1 0 @ ''</div>'')
            (createBranchConnector (- 1) 0 1)\<close>
    using createRungHtml_pieces[OF h]
    by (simp add: f c e(1) e' n u renderEntry_def)
  with h a show ?thesis by simp
qed

text \<open>
  Claim C2.  Every empty position of the grid should receive its piece of markup: the
  horizontal filler on row 0 and, on a row above 0 with no later content and no branch,
  the inert placeholder.  In the rung of 2 rows and 1 column whose only cell stands on
  row -1, the positions \<open>(0, 0)\<close> and \<open>(1, 0)\<close> are empty; the cell passes the guard
  \<^verbatim>\<open>row < rows && col < cols\<close>, which has no lower bound (the defect of claim C6), the
  assignment \<^verbatim>\<open>grid[row][col] = cell\<close> raises a \<^verbatim>\<open>TypeError\<close>, and
  \<^verbatim>\<open>createRungHtml\<close> returns no markup at all, whatever the symbol library.  On a rung
  that is rendered the pieces are as the claim says (lemmas \<open>createRungHtml_pieces\<close> and
  \<open>empty_positions_rendered\<close>).
\<close>

theorem empty_positions_unrendered:
  "rungRows negativeRowBranchRung = 2 \<and> rungCols negativeRowBranchRung = 1 \<and>
   emptyAt negativeRowBranchRung 0 0 \<and> emptyAt negativeRowBranchRung 1 0 \<and>
   \<not> laterContent negativeRowBranchRung 1 0 \<and> \<not> branchColumn negativeRowBranchRung 0 \<and>
   createRungHtml L negativeRowBranchRung = Inl TypeError"
proof -
  have a: "rungRows negativeRowBranchRung = 2" "rungCols negativeRowBranchRung = 1"
    "emptyAt negativeRowBranchRung 0 0" "emptyAt negativeRowBranchRung 1 0"
    "\<not> laterContent negativeRowBranchRung 1 0" "\<not> branchColumn negativeRowBranchRung 0"
    by code_simp+
  have "\<not> layoutOk negativeRowBranchRung"
    by code_simp
  then have "createRungHtml L negativeRowBranchRung = Inl TypeError"
    using createRungHtml_raises[of negativeRowBranchRung L] a(2) by simp
  with a show ?thesis by simp
qed

subsection \<open>The current program and the rung list\<close>

lemma setProgram_program: "currentProgram (setProgram st pd) = pd"
  by (simp add: setProgram_def Let_def split: option.splits)

text \<open>
  Claim C9 fails as stated: after \<^verbatim>\<open>setProgram\<close> of a program without an \<^verbatim>\<open>addresses\<close>
  field, \<^verbatim>\<open>getMonitorAddresses\<close> returns the empty list from the initial state and the
  addresses of the previous program after one was set.
\<close>

theorem setProgram_counterexample:
  "getMonitorAddresses (setProgram initialControl (Some exampleBareProgram)) = [] \<and>
   getMonitorAddresses
     (setProgram (setProgram initialControl (Some exampleProgram)) (Some exampleBareProgram)) =
     [''X1'', ''Y1'']"
  by (simp add: getMonitorAddresses_def setProgram_def initialControl_def exampleBareProgram_def
        exampleProgram_def)

text \<open>
  Claim C9, amended.  \<^verbatim>\<open>setProgram\<close> replaces \<^verbatim>\<open>currentProgram\<close> by its argument.  When the
  argument is a program with an \<^verbatim>\<open>addresses\<close> field, the address list becomes that field
  and the whole state after the call is the same from any two prior states; when the
  argument is null or has no \<^verbatim>\<open>addresses\<close> field, \<^verbatim>\<open>getMonitorAddresses\<close> keeps the list
  it had before.
\<close>

theorem setProgram_replaces:
  "currentProgram (setProgram st pd) = pd \<and>
   (\<forall>p a. pd = Some p \<and> addresses p = Some a \<longrightarrow>
      getMonitorAddresses (setProgram st pd) = a \<and> setProgram st pd = setProgram st' pd) \<and>
   (pd = None \<or> (\<exists>p. pd = Some p \<and> addresses p = None) \<longrightarrow>
      getMonitorAddresses (setProgram st pd) = getMonitorAddresses st)"
  by (auto simp: setProgram_def Let_def getMonitorAddresses_def split: option.splits)

theorem setProgram_replaces_witness:
  "addresses exampleProgram = Some [''X1'', ''Y1''] \<and>
   getMonitorAddresses (setProgram initialControl (Some exampleProgram)) = [''X1'', ''Y1''] \<and>
   setProgram (setProgram initialControl (Some exampleBareProgram)) (Some exampleProgram) =
     setProgram initialControl (Some exampleProgram) \<and>
   addresses exampleBareProgram = None \<and>
   getMonitorAddresses
     (setProgram (setProgram initialControl (Some exampleProgram)) (Some exampleBareProgram)) =
     getMonitorAddresses (setProgram initialControl (Some exampleProgram))"
proof -
  have a: "addresses exampleProgram = Some [''X1'', ''Y1'']"
    by (simp add: exampleProgram_def)
  have b: "addresses exampleBareProgram = None"
    by (simp add: exampleBareProgram_def)
  have c: "getMonitorAddresses (setProgram initialControl (Some exampleProgram)) = [''X1'', ''Y1''] \<and>
           setProgram initialControl (Some exampleProgram) =
             setProgram (setProgram initialControl (Some exampleBareProgram)) (Some exampleProgram)"
    using setProgram_replaces [of initialControl "Some exampleProgram"
        "setProgram initialControl (Some exampleBareProgram)"] a
    by blast
  have d: "getMonitorAddresses
             (setProgram (setProgram initialControl (Some exampleProgram)) (Some exampleBareProgram)) =
           getMonitorAddresses (setProgram initialControl (Some exampleProgram))"
    using setProgram_replaces [of "setProgram initialControl (Some exampleProgram)"
        "Some exampleBareProgram"] b
    by blast
  from a b c d show ?thesis
    by metis
qed

lemma createRungList_error_shown:
  "subrdata p = Some rungs \<Longrightarrow> error p = Some msg \<Longrightarrow> msg \<noteq> [] \<Longrightarrow>
   snd (createRungList L st (Some p)) = Inr (errorHtml msg)"
  by (simp add: createRungList_def strOr_def)

text \<open>
  Claim C3.  The program \<^verbatim>\<open>{error: "compile failed"}\<close> should yield the escaped error
  display.  \<^verbatim>\<open>createRungList\<close> tests for a missing \<^verbatim>\<open>subrdata\<close> first and returns the
  ``No Program Loaded'' placeholder, so the error branch below it is not reached; the
  error display is returned only when the program also carries \<^verbatim>\<open>subrdata\<close>
  (lemma \<open>createRungList_error_shown\<close>).
\<close>

theorem createRungList_error_only:
  "snd (createRungList L st (Some exampleErrorProgram)) = Inr noProgramHtml \<and>
   noProgramHtml \<noteq> errorHtml ''compile failed''"
  by (simp add: createRungList_def exampleErrorProgram_def noProgramHtml_def errorHtml_def nl_def)

subsection \<open>Escaping\<close>

lemma angles_append: "angles (a @ b) = angles a @ angles b"
  by (simp add: angles_def)

lemma angles_Nil: "angles [] = []"
  by (simp add: angles_def)

lemma angles_concat: "angles (concat xs) = concat (map angles xs)"
  by (induction xs) (simp_all add: angles_append angles_Nil)

lemma angles_escapeChar: "angles (escapeChar c) = []"
  by (simp add: angles_def escapeChar_def)

lemma angles_escapeHtml: "angles (escapeHtml s) = []"
  by (simp add: escapeHtml_def angles_concat angles_escapeChar angles_Nil comp_def)

lemma angles_nl: "angles nl = []"
  by (simp add: angles_def nl_def)

lemma angles_sp: "angles (sp n) = []"
  by (simp add: angles_def sp_def)

lemma digit_no_angle:
  assumes "n < 10"
  shows "angles [''0123456789'' ! n] = []"
proof -
  have "n \<in> {0, 1, 2, 3, 4, 5, 6, 7, 8, 9}"
    using assms by auto
  then show ?thesis
    by (auto simp: angles_def)
qed

lemma angles_showNat: "angles (showNat n) = []"
proof (induction n rule: showNat.induct)
  case (1 n)
  show ?case
  proof (cases "n < 10")
    case True
    then show ?thesis
      by (subst showNat.simps) (simp add: digit_no_angle)
  next
    case False
    then have "angles (showNat (n div 10)) = []"
      by (rule "1.IH")
    then show ?thesis
      using False
      by (subst showNat.simps) (simp add: angles_append digit_no_angle)
  qed
qed

lemma angles_literal:
  "angles (CHR ''<'' # s) = CHR ''<'' # angles s"
  "angles (CHR ''>'' # s) = CHR ''>'' # angles s"
  "c \<noteq> CHR ''<'' \<Longrightarrow> c \<noteq> CHR ''>'' \<Longrightarrow> angles (c # s) = angles s"
  by (simp_all add: angles_def)

lemma angles_showInt: "angles (showInt i) = []"
  by (simp add: showInt_def angles_append angles_showNat angles_literal angles_Nil)

lemmas angles_simps =
  angles_append angles_Nil angles_escapeHtml angles_nl angles_sp angles_showNat angles_showInt

lemma tagPairs_simps:
  "tagPairs (Suc 0) = ''<>''" "tagPairs 1 = ''<>''" "tagPairs 2 = ''<><>''" "tagPairs 3 = ''<><><>''"
  "tagPairs 4 = ''<><><><>''" "tagPairs 5 = ''<><><><><>''"
  by (simp_all add: tagPairs_def eval_nat_numeral)

lemma angles_addressDisplay:
  "angles (addressDisplay a as) = (if a \<noteq> [] \<or> as \<noteq> [] then tagPairs 2 else [])"
  by (simp add: addressDisplay_def angles_simps tagPairs_simps angles_literal)

lemma angles_paramsDisplay:
  "angles (paramsDisplay b ps) = (if b \<and> ps \<noteq> [] then tagPairs 2 else [])"
  by (simp add: paramsDisplay_def angles_simps tagPairs_simps angles_literal)

lemma angles_dataAttrs: "angles (dataAttrs as) = []"
  by (simp add: dataAttrs_def angles_simps angles_literal)

lemma angles_cellMarkup:
  "angles cellId = [] \<Longrightarrow> angles cellClass = [] \<Longrightarrow> angles attrs = [] \<Longrightarrow>
   angles (cellMarkup cellId cellClass attrs opc symb r c svgHtml paramsHtml addressHtml) =
     tagPairs 2 @ angles svgHtml @ tagPairs 1 @ angles paramsHtml @ angles addressHtml @ tagPairs 3"
  by (simp add: cellMarkup_def angles_simps tagPairs_simps angles_literal)

lemma angles_createCellHtml:
  assumes "createCellHtml L cell = Inr h"
  shows "angles h = cellSkeleton L cell"
proof -
  obtain f where f: "isBlockSymbol_prop L = Some f"
    using assms
    by (cases "isBlockSymbol_prop L") (auto simp: createCellHtml_def isBlockSymbol_def Let_def)
  have cls: "angles (if b then ''ladder-cell ladder-block-cell'' else ''ladder-cell'') = []" for b
    by (simp add: angles_literal angles_Nil)
  have cid: "angles (''cell-'' @ showInt r @ ''-'' @ showInt c) = []" for r c
    by (simp add: angles_simps angles_literal)
  have h: "h = cellMarkup (''cell-'' @ showInt (cellRow cell) @ ''-'' @ showInt (cellCol cell))
             (if f (strOr (symbol cell) ''il'') \<or> strOr (cell_type cell) ''unknown'' = ''block''
              then ''ladder-cell ladder-block-cell'' else ''ladder-cell'')
             (dataAttrs (listOr (addrs cell))) (strOr (opcode cell) []) (strOr (symbol cell) ''il'')
             (cellRow cell) (cellCol cell)
             (getSymbol L (strOr (symbol cell) ''il'') ''MB_ladderoff'')
             (paramsDisplay (f (strOr (symbol cell) ''il'') \<or>
                             strOr (cell_type cell) ''unknown'' = ''block'')
                (listOr (params cell)))
             (addressDisplay (strOr (addr cell) []) (listOr (addrs cell)))"
    using assms by (simp add: createCellHtml_def isBlockSymbol_def f Let_def)
  show ?thesis
    by (simp only: h angles_cellMarkup[OF cid cls angles_dataAttrs] angles_addressDisplay
          angles_paramsDisplay cellSkeleton_def Let_def libraryIsBlock_def f option.case)
qed

lemma angles_appendAll:
  assumes "appendAll (map f xs) = Inr s"
    and "\<And>x h. x \<in> set xs \<Longrightarrow> f x = Inr h \<Longrightarrow> angles h = sk x"
  shows "angles s = concat (map sk xs)"
  using assms
proof (induction xs arbitrary: s)
  case Nil
  then show ?case by (simp add: angles_Nil)
next
  case (Cons x xs)
  from Cons.prems(1) obtain h t where h: "f x = Inr h" and t: "appendAll (map f xs) = Inr t"
    and s: "s = h @ t"
    by (auto split: sum.splits)
  have "angles h = sk x"
    using Cons.prems(2) h by simp
  moreover have "angles t = concat (map sk xs)"
    using Cons.IH[OF t] Cons.prems(2) by simp
  ultimately show ?case
    by (simp add: s angles_append)
qed

lemma angles_createSpacerHtml:
  "angles (createSpacerHtml L r c) =
     tagPairs 1 @ angles (getSymbol L ''hline'' ''MB_ladderoff'') @ tagPairs 1"
  by (simp add: createSpacerHtml_def angles_simps angles_literal tagPairs_simps)

lemma angles_emptyPlaceholderHtml: "angles (emptyPlaceholderHtml r c) = tagPairs 2"
  by (simp add: emptyPlaceholderHtml_def angles_simps angles_literal tagPairs_simps)

lemma angles_createBranchConnector: "angles (createBranchConnector c s e) = tagPairs 2"
  by (simp add: createBranchConnector_def angles_simps angles_literal tagPairs_simps)

lemma angles_renderEntry:
  "renderEntry L e = Inr h \<Longrightarrow> angles h = entrySkeleton L e"
  by (cases e)
     (auto simp: renderEntry_def entrySkeleton_def angles_createCellHtml
        angles_createSpacerHtml angles_emptyPlaceholderHtml)

lemma angles_rowHtml:
  assumes "rowHtml L (rungGrid rg) (rungBranchCols rg) (rungCols rg) r = Inr h"
  shows "angles h = rowSkeleton L rg r"
proof -
  from assms obtain cellsHtml where
    c: "appendAll (map (renderEntry L) (map (rungEntry rg r) [0 ..< rungCols rg])) = Inr cellsHtml"
    and h: "h = ''<div class=\"'' @ (if r = 0 then ''ladder-row ladder-row-main''
                                    else ''ladder-row ladder-row-branch'')
              @ ''\" data-row=\"'' @ showNat r @ ''\">'' @ cellsHtml @ ''</div>''"
    by (auto simp: rowHtml_def rowEntries_rung split: sum.splits)
  have "angles cellsHtml = concat (map (entrySkeleton L) (map (rungEntry rg r) [0 ..< rungCols rg]))"
    using c by (rule angles_appendAll) (rule angles_renderEntry)
  then show ?thesis
    by (simp add: h rowSkeleton_def angles_simps angles_literal tagPairs_simps comp_def)
qed

lemma tagPairs_add: "tagPairs (m + n) = tagPairs m @ tagPairs n"
  by (simp add: tagPairs_def replicate_add)

lemma angles_connectors:
  "angles (concat (map (\<lambda>(c, minRow, maxRow). createBranchConnector c minRow maxRow) cs)) =
     tagPairs (2 * length cs)"
proof (induction cs)
  case Nil
  then show ?case by (simp add: angles_Nil tagPairs_def)
next
  case (Cons x cs)
  have "2 * length (x # cs) = 2 + 2 * length cs" by simp
  then show ?case
    using Cons.IH
    by (simp only: tagPairs_add list.map concat.simps angles_append)
       (simp add: angles_createBranchConnector split: prod.splits)
qed

lemma angles_rungMarkup:
  "angles (rungMarkup n cmt nrows ncols rowsHtml connectorsHtml) =
     tagPairs 4 @ (if cmt \<noteq> [] then tagPairs 2 else []) @ tagPairs 5
     @ angles rowsHtml @ angles connectorsHtml @ tagPairs 5"
  by (simp add: rungMarkup_def angles_simps angles_literal tagPairs_simps)

lemma angles_createRungHtml:
  assumes "createRungHtml L rg = Inr html"
  shows "angles html = rungSkeleton L rg"
proof -
  have ok: "layoutOk rg"
    using assms by (rule createRungHtml_returns)
  from assms obtain rowsHtml where
    r: "appendAll (map (rowHtml L (rungGrid rg) (rungBranchCols rg) (rungCols rg))
                       [0 ..< rungRows rg]) = Inr rowsHtml"
    and h: "html = rungMarkup (rungnum rg) (strOr (comment rg) []) (rungRows rg) (rungCols rg)
                     rowsHtml
                     (concat (map (\<lambda>(c, minRow, maxRow). createBranchConnector c minRow maxRow)
                                  (rungConnectors rg)))"
    by (auto simp: createRungHtml_layoutOk[OF ok] split: sum.splits)
  have "angles rowsHtml = concat (map (rowSkeleton L rg) [0 ..< rungRows rg])"
    using r by (rule angles_appendAll) (rule angles_rowHtml)
  then show ?thesis
    by (simp only: h angles_rungMarkup angles_connectors rungSkeleton_def)
qed

text \<open>
  Claim C10.  The text fields of a cell (\<^verbatim>\<open>addr\<close>, \<^verbatim>\<open>addrs\<close>, \<^verbatim>\<open>opcode\<close>, \<^verbatim>\<open>symbol\<close>,
  \<^verbatim>\<open>params\<close>) and the comment of a rung reach the markup through \<^verbatim>\<open>escapeHtml\<close> only,
  whose result has no angle bracket; so the angle brackets of the markup of a cell and of
  a whole rung are those of the skeleton, whatever the fields contain: no field can open
  or close a tag.
\<close>

theorem escaped_fields:
  "angles (escapeHtml s) = [] \<and>
   (createCellHtml L cell = Inr h \<longrightarrow> angles h = cellSkeleton L cell) \<and>
   (createRungHtml L rg = Inr html \<longrightarrow> angles html = rungSkeleton L rg)"
  by (simp add: angles_escapeHtml angles_createCellHtml angles_createRungHtml)

lemma hostileCell_Inr: "\<exists>h. createCellHtml exampleLibrary hostileCell = Inr h"
  by (rule createCellHtml_Inr) (simp add: exampleLibrary_def)

lemma hostileRung_layoutOk: "layoutOk hostileRung"
  by code_simp

lemma hostileRung_Inr: "\<exists>html. createRungHtml exampleLibrary hostileRung = Inr html"
  by (rule createRungHtml_Inr[OF hostileRung_layoutOk]) (simp add: exampleLibrary_def)

theorem escaped_fields_witness:
  "\<exists>h html.
     createCellHtml exampleLibrary hostileCell = Inr h \<and>
     angles h = tagPairs 17 \<and>
     createRungHtml exampleLibrary hostileRung = Inr html \<and>
     angles html = rungSkeleton exampleLibrary hostileRung"
proof -
  obtain h where h: "createCellHtml exampleLibrary hostileCell = Inr h"
    using hostileCell_Inr by blast
  obtain html where html: "createRungHtml exampleLibrary hostileRung = Inr html"
    using hostileRung_Inr by blast
  have sk: "cellSkeleton exampleLibrary hostileCell = tagPairs 17"
    by code_simp
  from escaped_fields [of "[]" exampleLibrary hostileCell h hostileRung html] h html sk
  show ?thesis by simp
qed

end
